theory Spec2Isabelle
  imports Complex_Main "HOL-Library.Word"
begin

section \<open>The Vulkan presentation renderer (renderer\_vulkan.cpp)\<close>

text \<open>
  A shallow embedding of \<^verbatim>\<open>RendererVulkan\<close>: the member functions that prepare the
  three screen textures, compose them into a frame, present the frame and capture a
  screenshot. The renderer object is a record that is passed in and returned; every call
  the renderer makes to a collaborator (scheduler, render-pass cache, allocator, device,
  present window, rasterizer, stream buffer, log) is appended to the field \<open>trace\<close> in
  program order, so that what a member function did can be read off the trace.

  Conventions.
  \<^item> \<^verbatim>\<open>u32\<close>, \<^verbatim>\<open>u8\<close> and \<^verbatim>\<open>vk::DeviceSize\<close> are words; their arithmetic wraps.
  \<^item> \<^verbatim>\<open>float\<close> values are modelled by the real number they denote. The conversion of
    a \<^verbatim>\<open>u32\<close> to \<^verbatim>\<open>float\<close> rounds as single precision does (\<open>to_float\<close>); the
    rounding of float sums and quotients, infinities and NaN are not modelled (\<open>x / 0\<close> is
    \<open>0\<close> here).
  \<^item> Vulkan and allocator handles are natural numbers, \<open>0\<close> being the null handle.
  \<^item> A fatal path (\<^verbatim>\<open>ASSERT\<close>, \<^verbatim>\<open>UNREACHABLE\<close>) ends the run: the result is
    \<open>Inl (reason, renderer at that point)\<close>.
  \<^item> Record fields carry a prefix where the C++ name is shared by several structs
    (\<open>tex_width\<close>, \<open>fb_width\<close>, \<open>frame_width\<close>, \<open>layout_width\<close>).
  \<^item> \<^verbatim>\<open>LOG_TRACE\<close> and \<^verbatim>\<open>LOG_INFO\<close> lines are left out; \<^verbatim>\<open>LOG_ERROR\<close> and
    \<^verbatim>\<open>LOG_CRITICAL\<close> are events.
\<close>

subsection \<open>Data\<close>

type_synonym u8 = "8 word"
type_synonym u32 = "32 word"
type_synonym u64 = "64 word"
type_synonym f32 = real
type_synonym handle = nat

text \<open>\<^verbatim>\<open>GPU::Regs::PixelFormat\<close> is declared outside this file: the raw register value.\<close>

type_synonym PixelFormat = u32

text \<open>\<^verbatim>\<open>Common::Vec4<f32>\<close>.\<close>

type_synonym Vec4f = "f32 \<times> f32 \<times> f32 \<times> f32"

text \<open>\<^verbatim>\<open>Settings::StereoRenderOption\<close>, with the enumerators the switches name.\<close>

datatype StereoRenderOption =
  Off | SideBySide | Anaglyph | Interlaced | ReverseInterlaced | CardboardVR

datatype MonoRenderOption = LeftEye | RightEye

text \<open>
  Modelled from the spec: the enumerators of \<^verbatim>\<open>Settings::MonoRenderOption\<close> and their
  integer values, declared outside this file. \<^verbatim>\<open>static_cast<int>\<close> of the mono
  preference is the screen slot of that eye: slot 0 holds the left eye and slot 1 the
  right eye of the top screen.
\<close>

fun mono_eye :: "MonoRenderOption \<Rightarrow> nat" where
  "mono_eye LeftEye = 0"
| "mono_eye RightEye = 1"

text \<open>
  \<^verbatim>\<open>Layout::DisplayOrientation\<close>. The switches of \<^verbatim>\<open>DrawSingleScreen\<close> name four
  enumerators and have a \<^verbatim>\<open>default\<close> branch; \<open>UnknownOrientation n\<close> stands for a value
  of the underlying integer type that is none of the four.
\<close>

datatype DisplayOrientation =
  Landscape | Portrait | LandscapeFlipped | PortraitFlipped | UnknownOrientation int

text \<open>\<^verbatim>\<open>Common::Rectangle<T>\<close>: left, top, right, bottom.\<close>

record 'a Rectangle =
  r_left :: 'a
  r_top :: 'a
  r_right :: 'a
  r_bottom :: 'a

text \<open>\<^verbatim>\<open>GPU::Regs::FramebufferConfig\<close>: the guest descriptor of one screen.\<close>

record FramebufferConfig =
  fb_width :: u32
  fb_height :: u32
  fb_color_format :: PixelFormat
  fb_stride :: u32
  fb_active_fb :: u32
  address_left1 :: u32
  address_left2 :: u32
  address_right1 :: u32
  address_right2 :: u32

text \<open>\<^verbatim>\<open>LCD::Regs::ColorFill\<close>, decoded.\<close>

record ColorFill =
  is_enabled :: bool
  color_r :: u8
  color_g :: u8
  color_b :: u8

datatype LcdReg = color_fill_top | color_fill_bottom

record TextureInfo =
  tex_width :: u32
  tex_height :: u32
  tex_format :: PixelFormat
  tex_image :: handle
  tex_image_view :: handle
  tex_allocation :: handle

record ScreenInfo =
  texture :: TextureInfo
  texcoords :: "f32 Rectangle"
  image_view :: handle

record ScreenRectVertex =
  position :: "f32 \<times> f32"
  tex_coord :: "f32 \<times> f32"

definition mk_ScreenRectVertex :: "f32 \<Rightarrow> f32 \<Rightarrow> f32 \<Rightarrow> f32 \<Rightarrow> ScreenRectVertex" where
  "mk_ScreenRectVertex x y u v = \<lparr>position = (x, y), tex_coord = (u, v)\<rparr>"

text \<open>\<^verbatim>\<open>PresentUniformData\<close>: the push-constant block of one draw.\<close>

record PresentUniformData =
  modelview :: "f32 list"
  i_resolution :: Vec4f
  o_resolution :: Vec4f
  screen_id_l :: nat
  screen_id_r :: nat
  layer :: nat
  reverse_interlaced :: bool

text \<open>\<^verbatim>\<open>Frame\<close> of the present window.\<close>

record Frame =
  frame_width :: u32
  frame_height :: u32
  frame_image :: handle
  frame_allocation :: handle
  frame_image_view :: handle
  frame_framebuffer :: handle
  render_ready :: handle

record CardboardSettings =
  top_screen_right_eye :: u32
  bottom_screen_right_eye :: u32

text \<open>\<^verbatim>\<open>Layout::FramebufferLayout\<close>, with the fields this file reads.\<close>

record FramebufferLayout =
  layout_width :: u32
  layout_height :: u32
  top_screen_enabled :: bool
  bottom_screen_enabled :: bool
  additional_screen_enabled :: bool
  top_screen :: "u32 Rectangle"
  bottom_screen :: "u32 Rectangle"
  additional_screen :: "u32 Rectangle"
  is_rotated :: bool
  cardboard :: CardboardSettings

text \<open>
  \<^verbatim>\<open>Settings::values\<close> as read by this file, and the result of
  \<^verbatim>\<open>GetResolutionScaleFactor()\<close> (a method of the base class).
\<close>

record Settings =
  render_3d :: StereoRenderOption
  mono_render_option :: MonoRenderOption
  swap_screen :: bool
  filter_mode :: bool
  bg_red :: f32
  bg_green :: f32
  bg_blue :: f32
  resolution_scale_factor :: u32

subsection \<open>Commands and events\<close>

text \<open>
  One constructor for each closure handed to \<^verbatim>\<open>scheduler.Record\<close>, holding what the
  closure captures:
  \<^item> \<open>CmdClearColor image color\<close>: barrier to transfer-destination, \<^verbatim>\<open>clearColorImage\<close>,
    barrier back to general (\<^verbatim>\<open>LoadColorToActiveVkTexture\<close>);
  \<^item> \<open>CmdBeginPresent layout frame pipeline bindings\<close>: viewport and scissor of the layout,
    \<^verbatim>\<open>beginRenderPass\<close> on the frame, bind pipeline and descriptor set (\<^verbatim>\<open>PrepareDraw\<close>);
  \<^item> \<open>CmdDraw info offset\<close>: push constants \<open>info\<close>, bind the vertex buffer, draw 4 vertices
    from \<open>offset / sizeof(ScreenRectVertex)\<close>;
  \<^item> \<open>CmdEndPresent image\<close>: \<^verbatim>\<open>endRenderPass\<close> and the render barrier (\<^verbatim>\<open>DrawScreens\<close>);
  \<^item> \<open>CmdCopyToBuffer width height image buffer\<close>: barrier, \<^verbatim>\<open>copyImageToBuffer\<close>, barrier
    (\<^verbatim>\<open>RenderScreenshot\<close>).
\<close>

datatype command =
  CmdClearColor handle Vec4f
| CmdBeginPresent "u32 \<times> u32" Frame nat "nat \<times> handle list"
| CmdDraw PresentUniformData u64
| CmdEndPresent handle
| CmdCopyToBuffer u32 u32 handle handle

text \<open>The two present windows of the renderer.\<close>

datatype window = main_window | second_window

text \<open>
  The calls the renderer makes to its collaborators, with the arguments that matter:
  \<^item> \<open>Log_Error\<close>, \<open>Log_Critical\<close>: \<^verbatim>\<open>LOG_ERROR\<close> and \<^verbatim>\<open>LOG_CRITICAL\<close>;
  \<^item> \<open>EndRendering\<close>: \<^verbatim>\<open>renderpass_cache.EndRendering()\<close>;
  \<^item> \<open>Record\<close>, \<open>Finish\<close>, \<open>Flush\<close>: the scheduler (\<open>Flush\<close> with the semaphore to signal);
  \<^item> \<open>Acquire\<close>: \<^verbatim>\<open>present_set_provider.Acquire\<close> with the bindings asked for;
  \<^item> \<open>destroyImageView\<close>, \<open>destroyFramebuffer\<close>, \<open>createImageView\<close>: the device;
  \<^item> \<open>vmaCreateImage width height format\<close>, \<open>vmaDestroyImage image allocation\<close>: the
    allocator, for a screen texture or a frame's image;
  \<^item> \<open>vmaCreateBuffer size\<close>: a transfer-destination buffer of \<open>size\<close> bytes, created mapped
    and with host access (\<^verbatim>\<open>VMA_ALLOCATION_CREATE_MAPPED_BIT\<close>,
    \<^verbatim>\<open>VMA_ALLOCATION_CREATE_HOST_ACCESS_RANDOM_BIT\<close>); \<open>vmaDestroyBuffer buffer allocation\<close>;
  \<^item> \<open>AccelerateDisplay framebuffer address pixel_stride\<close>: the rasterizer;
  \<^item> \<open>VertexUpload vertices\<close>: \<^verbatim>\<open>Map\<close>, \<^verbatim>\<open>memcpy\<close> and \<^verbatim>\<open>Commit\<close> on the vertex buffer;
  \<^item> \<open>GetRenderFrame\<close>, \<open>WaitPresent\<close>, \<open>RecreateFrame window frame width height\<close>,
    \<open>Present\<close>: the present window;
  \<^item> \<open>CopyToScreenshotBits size\<close>: the \<^verbatim>\<open>memcpy\<close> of the mapped staging memory to
    \<^verbatim>\<open>settings.screenshot_bits\<close>;
  \<^item> \<open>screenshot_complete_callback\<close>: the completion callback of a screenshot.
\<close>

datatype event =
  Log_Error string
| Log_Critical string
| EndRendering
| Record command
| Finish
| Flush handle
| Acquire "nat \<times> handle list"
| destroyImageView handle
| destroyFramebuffer handle
| vmaDestroyImage handle handle
| vmaDestroyBuffer handle handle
| vmaCreateImage u32 u32 PixelFormat
| vmaCreateBuffer u64
| createImageView handle
| AccelerateDisplay FramebufferConfig u32 u32
| VertexUpload "ScreenRectVertex list"
| GetRenderFrame window
| WaitPresent window
| RecreateFrame window Frame u32 u32
| Present window Frame
| CopyToScreenshotBits u64
| screenshot_complete_callback bool

subsection \<open>The renderer and its surroundings\<close>

record RendererVulkan =
  screen_infos :: "nat \<Rightarrow> ScreenInfo"
  current_pipeline :: nat
  draw_info :: PresentUniformData
  clear_color :: Vec4f
  screenshot_requested :: bool
  bg_color_update_requested :: bool
  shader_update_requested :: bool
  screenshot_framebuffer_layout :: FramebufferLayout
  trace :: "event list"

text \<open>
  \<open>screen_infos\<close> is \<^verbatim>\<open>std::array<ScreenInfo, 3>\<close>; only the indices 0, 1 and 2 are ever
  used by the callers in this file.
\<close>

definition emit :: "event \<Rightarrow> RendererVulkan \<Rightarrow> RendererVulkan" where
  "emit e s = s\<lparr>trace := trace s @ [e]\<rparr>"

text \<open>
  What the renderer reads from outside during one top-level call: the guest registers,
  and the answers of its collaborators. Each collaborator is a function of the calls made
  so far (the trace), so that it may answer the same request differently at different
  moments.
  \<^item> \<open>g_framebuffer_config\<close>: \<^verbatim>\<open>GPU::g_regs.framebuffer_config[fb_id]\<close>;
  \<^item> \<open>LCD_Read\<close>: the colour-fill register that \<^verbatim>\<open>LCD::Read\<close> returns;
  \<^item> \<open>BytesPerPixel\<close>: \<^verbatim>\<open>GPU::Regs::BytesPerPixel\<close>, declared outside this file;
  \<^item> \<open>GetWidth\<close>, \<open>GetHeight\<close>: the methods of \<^verbatim>\<open>Common::Rectangle<u32>\<close>, declared
    outside this file;
  \<^item> \<open>w_vmaCreateImage\<close>, \<open>w_vmaCreateBuffer\<close>: \<open>None\<close> when the result is not
    \<^verbatim>\<open>VK_SUCCESS\<close>, else the new handle and its allocation;
  \<^item> \<open>w_Map\<close>: the offset \<^verbatim>\<open>vertex_buffer.Map\<close> returns;
  \<^item> \<open>w_uninitialized\<close>: the four elements the local \<^verbatim>\<open>std::array<ScreenRectVertex, 4>\<close>
    \<^verbatim>\<open>vertices\<close> holds before the switch assigns it (\<^verbatim>\<open>ScreenRectVertex() = default\<close>
    initialises nothing);
  \<^item> \<open>w_GetRenderFrame\<close>: the frame \<^verbatim>\<open>PresentWindow::GetRenderFrame\<close> hands out;
  \<^item> \<open>w_frame_handles\<close>: image, allocation, view and framebuffer of a recreated frame.
\<close>

record World =
  g_framebuffer_config :: "nat \<Rightarrow> FramebufferConfig"
  LCD_Read :: "LcdReg \<Rightarrow> ColorFill"
  BytesPerPixel :: "PixelFormat \<Rightarrow> nat"
  GetWidth :: "u32 Rectangle \<Rightarrow> u32"
  GetHeight :: "u32 Rectangle \<Rightarrow> u32"
  w_AccelerateDisplay ::
    "event list \<Rightarrow> FramebufferConfig \<Rightarrow> u32 \<Rightarrow> u32 \<Rightarrow> ScreenInfo \<Rightarrow> (handle \<times> f32 Rectangle) option"
  w_vmaCreateImage :: "event list \<Rightarrow> u32 \<Rightarrow> u32 \<Rightarrow> PixelFormat \<Rightarrow> (handle \<times> handle) option"
  w_createImageView :: "event list \<Rightarrow> handle \<Rightarrow> handle"
  w_vmaCreateBuffer :: "event list \<Rightarrow> u64 \<Rightarrow> (handle \<times> handle) option"
  w_Map :: "event list \<Rightarrow> u64"
  w_uninitialized ::
    "event list \<Rightarrow> ScreenRectVertex \<times> ScreenRectVertex \<times> ScreenRectVertex \<times> ScreenRectVertex"
  w_GetRenderFrame :: "event list \<Rightarrow> window \<Rightarrow> Frame"
  w_frame_handles :: "event list \<Rightarrow> handle \<times> handle \<times> handle \<times> handle"

text \<open>
  Modelled from the spec: the macros \<^verbatim>\<open>ASSERT\<close> and \<^verbatim>\<open>UNREACHABLE\<close> of
  \<^verbatim>\<open>common/assert.h\<close>, which is outside this file. A failed assertion and a reached
  \<^verbatim>\<open>UNREACHABLE()\<close> are fatal (spec 7: an allocation failure "terminates the process"):
  the run ends there. \<open>DivisionByZero\<close> is the integer division \<^verbatim>\<open>stride / bpp\<close> with
  \<open>bpp = 0\<close>.
\<close>

datatype fatal = AssertionFailed | Unreachable | DivisionByZero

type_synonym 'a result = "(fatal \<times> 'a) + 'a"

definition and_then :: "'a result \<Rightarrow> ('a \<Rightarrow> 'a result) \<Rightarrow> 'a result" where
  "and_then r f = (case r of Inl e \<Rightarrow> Inl e | Inr s \<Rightarrow> f s)"

subsection \<open>ReloadPipeline\<close>

definition ReloadPipeline :: "Settings \<Rightarrow> RendererVulkan \<Rightarrow> RendererVulkan" where
  "ReloadPipeline S s =
     (case render_3d S of
        Anaglyph \<Rightarrow> s\<lparr>current_pipeline := 1\<rparr>
      | Interlaced \<Rightarrow>
          s\<lparr>current_pipeline := 2,
            draw_info := (draw_info s)\<lparr>reverse_interlaced := (render_3d S = ReverseInterlaced)\<rparr>\<rparr>
      | ReverseInterlaced \<Rightarrow>
          s\<lparr>current_pipeline := 2,
            draw_info := (draw_info s)\<lparr>reverse_interlaced := (render_3d S = ReverseInterlaced)\<rparr>\<rparr>
      | _ \<Rightarrow> s\<lparr>current_pipeline := 0\<rparr>)"

subsection \<open>Drawing one screen\<close>

text \<open>
  \<^verbatim>\<open>static_cast<float>\<close> of a \<^verbatim>\<open>u32\<close>. A \<^verbatim>\<open>float\<close> has a significand of 24 bits: a
  value below \<open>2^24\<close> converts exactly, a larger one is rounded to the nearest multiple of
  \<open>2^e\<close> that fits, ties to the even significand (16777217 becomes 16777216). Here \<open>e\<close> is
  the number of bits above 24 that the value needs, at most 8 for a \<^verbatim>\<open>u32\<close>.
\<close>

definition to_float :: "u32 \<Rightarrow> f32" where
  "to_float n =
     (let m = unat n;
          e = length (filter (\<lambda>k. (2::nat) ^ (24 + k) \<le> m) [0..<8]);
          q = m div 2 ^ e;
          r = m mod 2 ^ e;
          q' = (if 2 ^ e < 2 * r \<or> (2 * r = 2 ^ e \<and> odd q) then q + 1 else q)
      in real (q' * 2 ^ e))"

definition MakeOrthographicMatrix :: "u32 \<Rightarrow> u32 \<Rightarrow> f32 list" where
  "MakeOrthographicMatrix width height =
     [2 / to_float width, 0, 0, -1,
      0, 2 / to_float height, 0, -1,
      0, 0, 1, 0,
      0, 0, 0, 1]"

text \<open>
  The switch on the orientation, which \<^verbatim>\<open>DrawSingleScreen\<close> and
  \<^verbatim>\<open>DrawSingleScreenStereo\<close> both contain, word for word. The result is the array
  \<^verbatim>\<open>vertices\<close>, the values of the variables \<^verbatim>\<open>h\<close> and \<^verbatim>\<open>w\<close> after the switch (the
  portrait cases end in \<^verbatim>\<open>std::swap(h, w)\<close>), and the renderer. The \<^verbatim>\<open>default\<close> branch
  logs and breaks out of the switch: \<^verbatim>\<open>vertices\<close> keeps what it held.
\<close>

definition orientation_switch ::
  "World \<Rightarrow> f32 Rectangle \<Rightarrow> f32 \<Rightarrow> f32 \<Rightarrow> f32 \<Rightarrow> f32 \<Rightarrow> DisplayOrientation \<Rightarrow> RendererVulkan
     \<Rightarrow> ScreenRectVertex list \<times> f32 \<times> f32 \<times> RendererVulkan" where
  "orientation_switch W tc x y w h orientation s =
     (case orientation of
        Landscape \<Rightarrow>
          ([mk_ScreenRectVertex x y (r_bottom tc) (r_left tc),
            mk_ScreenRectVertex (x + w) y (r_bottom tc) (r_right tc),
            mk_ScreenRectVertex x (y + h) (r_top tc) (r_left tc),
            mk_ScreenRectVertex (x + w) (y + h) (r_top tc) (r_right tc)], h, w, s)
      | Portrait \<Rightarrow>
          ([mk_ScreenRectVertex x y (r_bottom tc) (r_right tc),
            mk_ScreenRectVertex (x + w) y (r_top tc) (r_right tc),
            mk_ScreenRectVertex x (y + h) (r_bottom tc) (r_left tc),
            mk_ScreenRectVertex (x + w) (y + h) (r_top tc) (r_left tc)], w, h, s)
      | LandscapeFlipped \<Rightarrow>
          ([mk_ScreenRectVertex x y (r_top tc) (r_right tc),
            mk_ScreenRectVertex (x + w) y (r_top tc) (r_left tc),
            mk_ScreenRectVertex x (y + h) (r_bottom tc) (r_right tc),
            mk_ScreenRectVertex (x + w) (y + h) (r_bottom tc) (r_left tc)], h, w, s)
      | PortraitFlipped \<Rightarrow>
          ([mk_ScreenRectVertex x y (r_top tc) (r_left tc),
            mk_ScreenRectVertex (x + w) y (r_bottom tc) (r_left tc),
            mk_ScreenRectVertex x (y + h) (r_top tc) (r_right tc),
            mk_ScreenRectVertex (x + w) (y + h) (r_bottom tc) (r_right tc)], w, h, s)
      | UnknownOrientation n \<Rightarrow>
          ((case w_uninitialized W (trace s) of (v0, v1, v2, v3) \<Rightarrow> [v0, v1, v2, v3]), h, w,
           emit (Log_Error ''Unknown DisplayOrientation'') s))"

text \<open>
  After the switch: \<^verbatim>\<open>Map\<close>, \<^verbatim>\<open>memcpy\<close> and \<^verbatim>\<open>Commit\<close> of the four vertices (one
  \<open>VertexUpload\<close> event), the refresh of \<^verbatim>\<open>draw_info\<close>, and the recorded draw, which
  captures a copy of \<^verbatim>\<open>draw_info\<close> and the offset of the upload.
\<close>

definition DrawSingleScreen ::
  "World \<Rightarrow> Settings \<Rightarrow> nat \<Rightarrow> f32 \<Rightarrow> f32 \<Rightarrow> f32 \<Rightarrow> f32 \<Rightarrow> DisplayOrientation
     \<Rightarrow> RendererVulkan \<Rightarrow> RendererVulkan" where
  "DrawSingleScreen W S screen_id x y w h orientation s =
     (let screen_info = screen_infos s screen_id;
          (vertices, h', w', s1) = orientation_switch W (texcoords screen_info) x y w h orientation s;
          offset = w_Map W (trace s1);
          s2 = emit (VertexUpload vertices) s1;
          scale_factor = resolution_scale_factor S;
          tw = to_float (tex_width (texture screen_info) * scale_factor);
          th = to_float (tex_height (texture screen_info) * scale_factor);
          info = (draw_info s2)
            \<lparr>i_resolution := (tw, th, 1 / tw, 1 / th),
             o_resolution := (h', w', 1 / h', 1 / w'),
             screen_id_l := screen_id\<rparr>
      in emit (Record (CmdDraw info offset)) (s2\<lparr>draw_info := info\<rparr>))"

definition DrawSingleScreenStereo ::
  "World \<Rightarrow> Settings \<Rightarrow> nat \<Rightarrow> nat \<Rightarrow> f32 \<Rightarrow> f32 \<Rightarrow> f32 \<Rightarrow> f32 \<Rightarrow> DisplayOrientation
     \<Rightarrow> RendererVulkan \<Rightarrow> RendererVulkan" where
  "DrawSingleScreenStereo W S screen_id_l' screen_id_r' x y w h orientation s =
     (let screen_info_l = screen_infos s screen_id_l';
          (vertices, h', w', s1) =
             orientation_switch W (texcoords screen_info_l) x y w h orientation s;
          offset = w_Map W (trace s1);
          s2 = emit (VertexUpload vertices) s1;
          scale_factor = resolution_scale_factor S;
          tw = to_float (tex_width (texture screen_info_l) * scale_factor);
          th = to_float (tex_height (texture screen_info_l) * scale_factor);
          info = (draw_info s2)
            \<lparr>i_resolution := (tw, th, 1 / tw, 1 / th),
             o_resolution := (h', w', 1 / h', 1 / w'),
             screen_id_l := screen_id_l',
             screen_id_r := screen_id_r'\<rparr>
      in emit (Record (CmdDraw info offset)) (s2\<lparr>draw_info := info\<rparr>))"

subsection \<open>Drawing the top and the bottom screen\<close>

definition set_layer :: "nat \<Rightarrow> RendererVulkan \<Rightarrow> RendererVulkan" where
  "set_layer n s = s\<lparr>draw_info := (draw_info s)\<lparr>layer := n\<rparr>\<rparr>"

definition DrawTopScreen ::
  "World \<Rightarrow> Settings \<Rightarrow> FramebufferLayout \<Rightarrow> u32 Rectangle \<Rightarrow> RendererVulkan \<Rightarrow> RendererVulkan" where
  "DrawTopScreen W S layout top_screen' s =
     (if \<not> top_screen_enabled layout then s
      else
        let top_screen_left = to_float (r_left top_screen');
            top_screen_top = to_float (r_top top_screen');
            top_screen_width = to_float (GetWidth W top_screen');
            top_screen_height = to_float (GetHeight W top_screen');
            orientation = (if is_rotated layout then Landscape else Portrait)
        in case render_3d S of
             Off \<Rightarrow>
               DrawSingleScreen W S (mono_eye (mono_render_option S)) top_screen_left
                 top_screen_top top_screen_width top_screen_height orientation s
           | SideBySide \<Rightarrow>
               DrawSingleScreen W S 1
                 (top_screen_left / 2 + to_float (layout_width layout div 2))
                 top_screen_top (top_screen_width / 2) top_screen_height orientation
                 (set_layer 1
                   (DrawSingleScreen W S 0 (top_screen_left / 2) top_screen_top
                      (top_screen_width / 2) top_screen_height orientation s))
           | CardboardVR \<Rightarrow>
               DrawSingleScreen W S 1
                 (to_float (top_screen_right_eye (cardboard layout) + layout_width layout div 2))
                 top_screen_top top_screen_width top_screen_height orientation
                 (set_layer 1
                   (DrawSingleScreen W S 0 top_screen_left top_screen_top top_screen_width
                      top_screen_height orientation s))
           | _ \<Rightarrow>
               DrawSingleScreenStereo W S 0 1 top_screen_left top_screen_top top_screen_width
                 top_screen_height orientation s)"

definition DrawBottomScreen ::
  "World \<Rightarrow> Settings \<Rightarrow> FramebufferLayout \<Rightarrow> u32 Rectangle \<Rightarrow> RendererVulkan \<Rightarrow> RendererVulkan" where
  "DrawBottomScreen W S layout bottom_screen' s =
     (if \<not> bottom_screen_enabled layout then s
      else
        let bottom_screen_left = to_float (r_left bottom_screen');
            bottom_screen_top = to_float (r_top bottom_screen');
            bottom_screen_width = to_float (GetWidth W bottom_screen');
            bottom_screen_height = to_float (GetHeight W bottom_screen');
            orientation = (if is_rotated layout then Landscape else Portrait)
        in case render_3d S of
             Off \<Rightarrow>
               DrawSingleScreen W S 2 bottom_screen_left bottom_screen_top bottom_screen_width
                 bottom_screen_height orientation s
           | SideBySide \<Rightarrow>
               DrawSingleScreen W S 2
                 (bottom_screen_left / 2 + to_float (layout_width layout div 2))
                 bottom_screen_top (bottom_screen_width / 2) bottom_screen_height orientation
                 (set_layer 1
                   (DrawSingleScreen W S 2 (bottom_screen_left / 2) bottom_screen_top
                      (bottom_screen_width / 2) bottom_screen_height orientation s))
           | CardboardVR \<Rightarrow>
               DrawSingleScreen W S 2
                 (to_float (bottom_screen_right_eye (cardboard layout) + layout_width layout div 2))
                 bottom_screen_top bottom_screen_width bottom_screen_height orientation
                 (set_layer 1
                   (DrawSingleScreen W S 2 bottom_screen_left bottom_screen_top
                      bottom_screen_width bottom_screen_height orientation s))
           | _ \<Rightarrow>
               DrawSingleScreenStereo W S 2 2 bottom_screen_left bottom_screen_top
                 bottom_screen_width bottom_screen_height orientation s)"

subsection \<open>Composing a frame\<close>

text \<open>
  Modelled from the spec: \<^verbatim>\<open>DescriptorSetProvider::Acquire\<close>, whose code is outside
  this file. "A returned binding always reflects the requested views at call time": the
  descriptor set is represented by the bindings it was acquired for, the index of the
  sampler in \<^verbatim>\<open>present_samplers\<close> and the three image views.
\<close>

definition present_bindings :: "Settings \<Rightarrow> RendererVulkan \<Rightarrow> nat \<times> handle list" where
  "present_bindings S s =
     ((if filter_mode S then 0 else 1),
      map (\<lambda>i. image_view (screen_infos s i)) [0, 1, 2])"

definition PrepareDraw ::
  "Settings \<Rightarrow> Frame \<Rightarrow> FramebufferLayout \<Rightarrow> RendererVulkan \<Rightarrow> RendererVulkan" where
  "PrepareDraw S frame layout s =
     (let descriptor_set = present_bindings S s;
          s1 = emit (Acquire descriptor_set) s;
          s2 = emit EndRendering s1
      in emit (Record (CmdBeginPresent (layout_width layout, layout_height layout) frame
                 (current_pipeline s2) descriptor_set)) s2)"

definition update_bg_color :: "Settings \<Rightarrow> RendererVulkan \<Rightarrow> RendererVulkan" where
  "update_bg_color S s =
     (if bg_color_update_requested s
      then s\<lparr>bg_color_update_requested := False,
             clear_color := (bg_red S, bg_green S, bg_blue S, snd (snd (snd (clear_color s))))\<rparr>
      else s)"

definition update_shader :: "Settings \<Rightarrow> RendererVulkan \<Rightarrow> RendererVulkan" where
  "update_shader S s =
     (if shader_update_requested s
      then ReloadPipeline S (s\<lparr>shader_update_requested := False\<rparr>)
      else s)"

text \<open>
  \<^verbatim>\<open>DrawScreens\<close>. \<open>update_bg_color\<close> and \<open>update_shader\<close> are its first two
  \<^verbatim>\<open>if (flag.exchange(false))\<close> statements. The parameter \<^verbatim>\<open>flipped\<close> is not read.
\<close>

definition DrawScreens ::
  "World \<Rightarrow> Settings \<Rightarrow> Frame \<Rightarrow> FramebufferLayout \<Rightarrow> bool \<Rightarrow> RendererVulkan \<Rightarrow> RendererVulkan" where
  "DrawScreens W S frame layout flipped s =
     (let s1 = update_shader S (update_bg_color S s);
          s2 = PrepareDraw S frame layout s1;
          s3 = s2\<lparr>draw_info := (draw_info s2)
                 \<lparr>modelview := MakeOrthographicMatrix (layout_width layout) (layout_height layout)\<rparr>\<rparr>;
          s4 = set_layer 0 s3;
          s5 = (if \<not> swap_screen S
                then DrawBottomScreen W S layout (bottom_screen layout)
                       (set_layer 0 (DrawTopScreen W S layout (top_screen layout) s4))
                else DrawTopScreen W S layout (top_screen layout)
                       (set_layer 0 (DrawBottomScreen W S layout (bottom_screen layout) s4)));
          s6 = (if additional_screen_enabled layout
                then (if \<not> swap_screen S
                      then DrawTopScreen W S layout (additional_screen layout) s5
                      else DrawBottomScreen W S layout (additional_screen layout) s5)
                else s5)
      in emit (Record (CmdEndPresent (frame_image frame))) s6)"

subsection \<open>Presenting to a window\<close>

text \<open>
  Modelled from the spec: \<^verbatim>\<open>PresentWindow::RecreateFrame\<close>, whose code is outside this
  file. It "destroys and reallocates a frame's image/view/target at new dimensions", and
  "a Frame's stored dimensions always equal its backing image's dimensions": the frame
  gets the new width and height and four new handles.
\<close>

definition recreated :: "World \<Rightarrow> event list \<Rightarrow> Frame \<Rightarrow> u32 \<Rightarrow> u32 \<Rightarrow> Frame" where
  "recreated W tr frame width height =
     (case w_frame_handles W tr of
        (img, alloc, view, fb) \<Rightarrow>
          frame\<lparr>frame_width := width, frame_height := height, frame_image := img,
                frame_allocation := alloc, frame_image_view := view, frame_framebuffer := fb\<rparr>)"

definition RenderToWindow ::
  "World \<Rightarrow> Settings \<Rightarrow> window \<Rightarrow> FramebufferLayout \<Rightarrow> bool \<Rightarrow> RendererVulkan \<Rightarrow> RendererVulkan" where
  "RenderToWindow W S win layout flipped s =
     (let frame = w_GetRenderFrame W (trace s) win;
          s1 = emit (GetRenderFrame win) s;
          (frame', s2) =
            (if layout_width layout \<noteq> frame_width frame \<or> layout_height layout \<noteq> frame_height frame
             then
               let s1a = emit (WaitPresent win) s1;
                   s1b = emit Finish s1a
               in (recreated W (trace s1b) frame (layout_width layout) (layout_height layout),
                   emit (RecreateFrame win frame (layout_width layout) (layout_height layout)) s1b)
             else (frame, s1));
          s3 = DrawScreens W S frame' layout flipped s2;
          s4 = emit (Flush (render_ready frame')) s3
      in emit (Present win frame') s4)"

subsection \<open>Preparing the screen textures\<close>

text \<open>
  The member functions below take \<^verbatim>\<open>TextureInfo&\<close> or \<^verbatim>\<open>ScreenInfo&\<close>; the callers
  pass \<^verbatim>\<open>screen_infos[i]\<close>, so the model passes the slot \<open>i\<close>.
\<close>

definition set_texture :: "nat \<Rightarrow> TextureInfo \<Rightarrow> RendererVulkan \<Rightarrow> RendererVulkan" where
  "set_texture i tex s =
     s\<lparr>screen_infos := (screen_infos s)(i := (screen_infos s i)\<lparr>texture := tex\<rparr>)\<rparr>"

definition ConfigureFramebufferTexture ::
  "World \<Rightarrow> nat \<Rightarrow> FramebufferConfig \<Rightarrow> RendererVulkan \<Rightarrow> RendererVulkan result" where
  "ConfigureFramebufferTexture W i framebuffer s =
     (let tex = texture (screen_infos s i);
          s1 = (if tex_image_view tex \<noteq> 0 then emit (destroyImageView (tex_image_view tex)) s else s);
          s2 = (if tex_image tex \<noteq> 0
                then emit (vmaDestroyImage (tex_image tex) (tex_allocation tex)) s1 else s1);
          s3 = emit (vmaCreateImage (fb_width framebuffer) (fb_height framebuffer)
                       (fb_color_format framebuffer)) s2
      in case w_vmaCreateImage W (trace s2) (fb_width framebuffer) (fb_height framebuffer)
                (fb_color_format framebuffer) of
           None \<Rightarrow> Inl (Unreachable, emit (Log_Critical ''Failed allocating texture'') s3)
         | Some (img, alloc) \<Rightarrow>
             let view = w_createImageView W (trace s3) img;
                 s4 = emit (createImageView img) s3
             in Inr (set_texture i
                      (tex\<lparr>tex_allocation := alloc, tex_image := img, tex_image_view := view,
                           tex_width := fb_width framebuffer, tex_height := fb_height framebuffer,
                           tex_format := fb_color_format framebuffer\<rparr>) s4))"

definition LoadColorToActiveVkTexture ::
  "u8 \<Rightarrow> u8 \<Rightarrow> u8 \<Rightarrow> TextureInfo \<Rightarrow> RendererVulkan \<Rightarrow> RendererVulkan" where
  "LoadColorToActiveVkTexture r g b tex s =
     (let clear_color' = (real (unat r) / 255, real (unat g) / 255, real (unat b) / 255, 1);
          s1 = emit EndRendering s
      in emit (Record (CmdClearColor (tex_image tex) clear_color')) s1)"

text \<open>The address \<^verbatim>\<open>framebuffer_addr\<close> computed at the head of \<^verbatim>\<open>LoadFBToScreenInfo\<close>.\<close>

definition framebuffer_addr :: "FramebufferConfig \<Rightarrow> bool \<Rightarrow> u32" where
  "framebuffer_addr framebuffer right_eye =
     (let right_eye' =
            (if address_right1 framebuffer = 0 \<or> address_right2 framebuffer = 0
             then False else right_eye)
      in if fb_active_fb framebuffer = 0
         then (if right_eye' then address_right1 framebuffer else address_left1 framebuffer)
         else (if right_eye' then address_right2 framebuffer else address_left2 framebuffer))"

text \<open>
  Modelled from the spec: \<^verbatim>\<open>RasterizerVulkan::AccelerateDisplay\<close>, whose code is outside
  this file. "true binds screen\_info's view directly to rasterizer-owned GPU memory":
  \<open>Some (view, coords)\<close> is the answer \<^verbatim>\<open>true\<close> with the view and the texture coordinates
  it stored in \<^verbatim>\<open>screen_info\<close>; \<open>None\<close> is the answer \<^verbatim>\<open>false\<close>, with \<^verbatim>\<open>screen_info\<close>
  untouched.
\<close>

definition LoadFBToScreenInfo ::
  "World \<Rightarrow> FramebufferConfig \<Rightarrow> nat \<Rightarrow> bool \<Rightarrow> RendererVulkan \<Rightarrow> RendererVulkan result" where
  "LoadFBToScreenInfo W framebuffer i right_eye s =
     (let addr = framebuffer_addr framebuffer right_eye;
          bpp = BytesPerPixel W (fb_color_format framebuffer)
      in if bpp = 0 then Inl (DivisionByZero, s)
         else
           let pixel_stride = unat (fb_stride framebuffer) div bpp
           in if pixel_stride * bpp \<noteq> unat (fb_stride framebuffer) then Inl (AssertionFailed, s)
              else if pixel_stride mod 4 \<noteq> 0 then Inl (AssertionFailed, s)
              else
                let screen_info = screen_infos s i;
                    s1 = emit (AccelerateDisplay framebuffer addr (of_nat pixel_stride)) s
                in case w_AccelerateDisplay W (trace s) framebuffer addr (of_nat pixel_stride)
                          screen_info of
                     Some (view, coords) \<Rightarrow>
                       Inr (s1\<lparr>screen_infos := (screen_infos s1)
                              (i := screen_info\<lparr>image_view := view, texcoords := coords\<rparr>)\<rparr>)
                   | None \<Rightarrow>
                       Inl (AssertionFailed,
                            s1\<lparr>screen_infos := (screen_infos s1)
                              (i := screen_info
                                 \<lparr>image_view := tex_image_view (texture screen_info),
                                  texcoords := \<lparr>r_left = 0, r_top = 0, r_right = 1, r_bottom = 1\<rparr>\<rparr>)\<rparr>))"

text \<open>
  One iteration of the loop of \<^verbatim>\<open>PrepareRendertarget\<close>, for the slot \<open>i\<close>. The
  iteration reads the descriptor \<^verbatim>\<open>framebuffer_config[fb_id]\<close> and the colour-fill register
  of the screen \<^verbatim>\<open>fb_id\<close>, where \<^verbatim>\<open>fb_id = i == 2 ? 1 : 0\<close>; \<open>texture_differs\<close> is the
  condition of its inner \<^verbatim>\<open>if\<close>.
\<close>

definition slot_framebuffer :: "World \<Rightarrow> nat \<Rightarrow> FramebufferConfig" where
  "slot_framebuffer W i = g_framebuffer_config W (if i = 2 then 1 else 0)"

definition slot_color_fill :: "World \<Rightarrow> nat \<Rightarrow> ColorFill" where
  "slot_color_fill W i =
     LCD_Read W (if (if i = 2 then 1 else 0) = (0::nat) then color_fill_top else color_fill_bottom)"

definition texture_differs :: "TextureInfo \<Rightarrow> FramebufferConfig \<Rightarrow> bool" where
  "texture_differs tex framebuffer =
     (tex_width tex \<noteq> fb_width framebuffer \<or> tex_height tex \<noteq> fb_height framebuffer \<or>
      tex_format tex \<noteq> fb_color_format framebuffer)"

definition PrepareRendertarget_slot ::
  "World \<Rightarrow> nat \<Rightarrow> RendererVulkan \<Rightarrow> RendererVulkan result" where
  "PrepareRendertarget_slot W i s =
     (let framebuffer = slot_framebuffer W i;
          color_fill = slot_color_fill W i
      in if is_enabled color_fill
         then Inr (LoadColorToActiveVkTexture (color_r color_fill) (color_g color_fill)
                     (color_b color_fill) (texture (screen_infos s i)) s)
         else
           and_then
             (and_then
                (if texture_differs (texture (screen_infos s i)) framebuffer
                 then ConfigureFramebufferTexture W i framebuffer s else Inr s)
                (LoadFBToScreenInfo W framebuffer i (i = 1)))
             (\<lambda>s'. Inr (set_texture i
                          ((texture (screen_infos s' i))
                             \<lparr>tex_width := fb_width framebuffer,
                              tex_height := fb_height framebuffer\<rparr>) s')))"

definition PrepareRendertarget :: "World \<Rightarrow> RendererVulkan \<Rightarrow> RendererVulkan result" where
  "PrepareRendertarget W s =
     and_then (and_then (PrepareRendertarget_slot W 0 s) (PrepareRendertarget_slot W 1))
       (PrepareRendertarget_slot W 2)"

text \<open>A sequence of calls, each with the registers and answers of its own moment.\<close>

fun PrepareRendertarget_calls :: "World list \<Rightarrow> RendererVulkan \<Rightarrow> RendererVulkan result" where
  "PrepareRendertarget_calls [] s = Inr s"
| "PrepareRendertarget_calls (W # Ws) s =
     and_then (PrepareRendertarget W s) (PrepareRendertarget_calls Ws)"

subsection \<open>Screenshots\<close>

definition empty_Frame :: Frame where
  "empty_Frame =
     \<lparr>frame_width = 0, frame_height = 0, frame_image = 0, frame_allocation = 0,
      frame_image_view = 0, frame_framebuffer = 0, render_ready = 0\<rparr>"

definition staging_size :: "u32 \<Rightarrow> u32 \<Rightarrow> u64" where
  "staging_size width height = ucast (width * height * 4)"

definition RenderScreenshot :: "World \<Rightarrow> Settings \<Rightarrow> RendererVulkan \<Rightarrow> RendererVulkan result" where
  "RenderScreenshot W S s =
     (if \<not> screenshot_requested s then Inr s
      else
        let s0 = s\<lparr>screenshot_requested := False\<rparr>;
            layout = screenshot_framebuffer_layout s0;
            width = layout_width layout;
            height = layout_height layout;
            s1 = emit (vmaCreateBuffer (staging_size width height)) s0
        in case w_vmaCreateBuffer W (trace s0) (staging_size width height) of
             None \<Rightarrow> Inl (Unreachable, emit (Log_Critical ''Failed allocating texture'') s1)
           | Some (buffer, allocation) \<Rightarrow>
               let frame = recreated W (trace s1) empty_Frame width height;
                   s2 = emit (RecreateFrame main_window empty_Frame width height) s1;
                   s3 = DrawScreens W S frame layout False s2;
                   s4 = emit (Record (CmdCopyToBuffer width height (frame_image frame) buffer)) s3;
                   s5 = emit Finish s4;
                   s6 = emit (CopyToScreenshotBits (staging_size width height)) s5;
                   s7 = emit (vmaDestroyBuffer buffer allocation) s6;
                   s8 = emit (vmaDestroyImage (frame_image frame) (frame_allocation frame)) s7;
                   s9 = emit (destroyFramebuffer (frame_framebuffer frame)) s8;
                   s10 = emit (destroyImageView (frame_image_view frame)) s9
               in Inr (emit (screenshot_complete_callback False) s10))"

subsection \<open>Reading a run\<close>

text \<open>The events a step appends to the trace.\<close>

definition emitted :: "(RendererVulkan \<Rightarrow> RendererVulkan) \<Rightarrow> RendererVulkan \<Rightarrow> event list" where
  "emitted f s = drop (length (trace s)) (trace (f s))"

text \<open>The renderer a fallible step ends in, and the events it appended until then.\<close>

definition final :: "RendererVulkan result \<Rightarrow> RendererVulkan" where
  "final r = (case r of Inl (e, s) \<Rightarrow> s | Inr s \<Rightarrow> s)"

definition emitted_until_end ::
  "(RendererVulkan \<Rightarrow> RendererVulkan result) \<Rightarrow> RendererVulkan \<Rightarrow> event list" where
  "emitted_until_end f s = drop (length (trace s)) (trace (final (f s)))"

text \<open>The uniform blocks of the recorded draws, and the vertex arrays uploaded.\<close>

fun draw_uniforms :: "event list \<Rightarrow> PresentUniformData list" where
  "draw_uniforms [] = []"
| "draw_uniforms (Record (CmdDraw info off) # es) = info # draw_uniforms es"
| "draw_uniforms (e # es) = draw_uniforms es"

fun uploads :: "event list \<Rightarrow> ScreenRectVertex list list" where
  "uploads [] = []"
| "uploads (VertexUpload vs # es) = vs # uploads es"
| "uploads (e # es) = uploads es"


text \<open>Width and height exchanged in a resolution entry \<open>(a, b, 1/a, 1/b)\<close>.\<close>

definition swap_wh :: "Vec4f \<Rightarrow> Vec4f" where
  "swap_wh v = (case v of (a, b, c, d) \<Rightarrow> (b, a, d, c))"

text \<open>
  The uniform block after the refresh in \<^verbatim>\<open>DrawSingleScreen\<close>, for the slot \<open>i\<close> and the
  values \<open>h\<close> and \<open>w\<close> the variables have after the switch.
\<close>

definition refreshed :: "Settings \<Rightarrow> RendererVulkan \<Rightarrow> nat \<Rightarrow> f32 \<Rightarrow> f32 \<Rightarrow> PresentUniformData" where
  "refreshed S s i h w =
     (draw_info s)
       \<lparr>i_resolution :=
          (to_float (tex_width (texture (screen_infos s i)) * resolution_scale_factor S),
           to_float (tex_height (texture (screen_infos s i)) * resolution_scale_factor S),
           1 / to_float (tex_width (texture (screen_infos s i)) * resolution_scale_factor S),
           1 / to_float (tex_height (texture (screen_infos s i)) * resolution_scale_factor S)),
        o_resolution := (h, w, 1 / h, 1 / w),
        screen_id_l := i\<rparr>"

text \<open>
  The checks of \<^verbatim>\<open>LoadFBToScreenInfo\<close> on the stride (the divisor is not zero and the two
  \<^verbatim>\<open>ASSERT\<close>s on \<^verbatim>\<open>pixel_stride\<close> hold), and the \<^verbatim>\<open>pixel_stride\<close> it passes on.
\<close>

definition stride_ok :: "World \<Rightarrow> FramebufferConfig \<Rightarrow> bool" where
  "stride_ok W framebuffer =
     (let bpp = BytesPerPixel W (fb_color_format framebuffer);
          pixel_stride = unat (fb_stride framebuffer) div bpp
      in bpp \<noteq> 0 \<and> pixel_stride * bpp = unat (fb_stride framebuffer) \<and> pixel_stride mod 4 = 0)"

definition pixel_stride_of :: "World \<Rightarrow> FramebufferConfig \<Rightarrow> u32" where
  "pixel_stride_of W framebuffer =
     of_nat (unat (fb_stride framebuffer) div BytesPerPixel W (fb_color_format framebuffer))"

text \<open>
  The events between two renderers of a run; \<open>grows s s'\<close> says that the trace of \<open>s'\<close>
  continues the trace of \<open>s\<close>.
\<close>

definition since :: "RendererVulkan \<Rightarrow> RendererVulkan \<Rightarrow> event list" where
  "since s s' = drop (length (trace s)) (trace s')"

definition grows :: "RendererVulkan \<Rightarrow> RendererVulkan \<Rightarrow> bool" where
  "grows s s' = (trace s' = trace s @ since s s')"

text \<open>
  The number of texture allocations in a trace (\<^verbatim>\<open>ConfigureFramebufferTexture\<close> makes
  exactly one call of \<^verbatim>\<open>vmaCreateImage\<close>), the triple (width, height, format) of a
  texture and of a guest descriptor, and the test of \<^verbatim>\<open>PrepareRendertarget\<close> for
  reallocating the slot \<open>i\<close>.
\<close>

fun reallocations :: "event list \<Rightarrow> nat" where
  "reallocations [] = 0"
| "reallocations (vmaCreateImage w h f # es) = Suc (reallocations es)"
| "reallocations (e # es) = reallocations es"

definition tex_desc :: "TextureInfo \<Rightarrow> u32 \<times> u32 \<times> PixelFormat" where
  "tex_desc tex = (tex_width tex, tex_height tex, tex_format tex)"

definition fb_desc :: "FramebufferConfig \<Rightarrow> u32 \<times> u32 \<times> PixelFormat" where
  "fb_desc framebuffer = (fb_width framebuffer, fb_height framebuffer, fb_color_format framebuffer)"

text \<open>
  The triple a slot holds after a sequence of calls that started with the triple \<open>d\<close>:
  the descriptor of the last call in which the colour fill of the slot was off.
\<close>

fun last_loaded :: "World list \<Rightarrow> nat \<Rightarrow> u32 \<times> u32 \<times> PixelFormat \<Rightarrow> u32 \<times> u32 \<times> PixelFormat" where
  "last_loaded [] i d = d"
| "last_loaded (W # Ws) i d =
     last_loaded Ws i
       (if is_enabled (slot_color_fill W i) then d else fb_desc (slot_framebuffer W i))"

definition realloc_needed :: "World \<Rightarrow> RendererVulkan \<Rightarrow> nat \<Rightarrow> bool" where
  "realloc_needed W s i =
     (\<not> is_enabled (slot_color_fill W i) \<and>
      texture_differs (texture (screen_infos s i)) (slot_framebuffer W i))"

text \<open>
  A monitor for the drain before a frame is recreated. A window is drained by
  \<^verbatim>\<open>WaitPresent\<close> on it followed at once by \<^verbatim>\<open>scheduler.Finish\<close>; every other event ends
  the drained state. \<open>drained_before_recreate d es\<close> holds when every \<^verbatim>\<open>RecreateFrame\<close>
  in \<open>es\<close> finds its window drained. \<open>recreates\<close> keeps the \<^verbatim>\<open>RecreateFrame\<close> events of a
  trace.
\<close>

datatype drain = NotDrained | Waited window | Drained window

fun drained_before_recreate :: "drain \<Rightarrow> event list \<Rightarrow> bool" where
  "drained_before_recreate d [] = True"
| "drained_before_recreate d (WaitPresent w # es) = drained_before_recreate (Waited w) es"
| "drained_before_recreate d (Finish # es) =
     drained_before_recreate (case d of Waited w \<Rightarrow> Drained w | _ \<Rightarrow> NotDrained) es"
| "drained_before_recreate d (RecreateFrame w f a b # es) =
     (d = Drained w \<and> drained_before_recreate NotDrained es)"
| "drained_before_recreate d (e # es) = drained_before_recreate NotDrained es"

fun recreates :: "event list \<Rightarrow> event list" where
  "recreates [] = []"
| "recreates (RecreateFrame w f a b # es) = RecreateFrame w f a b # recreates es"
| "recreates (e # es) = recreates es"

text \<open>
  The events of composing a frame, and \<open>composes s s'\<close>: from \<open>s\<close> to \<open>s'\<close> the renderer made
  only such events and left the screenshot request as it was.
\<close>

fun composing :: "event \<Rightarrow> bool" where
  "composing (Acquire b) = True"
| "composing EndRendering = True"
| "composing (Record c) = True"
| "composing (VertexUpload vs) = True"
| "composing (Log_Error m) = True"
| "composing e = False"

definition composes :: "RendererVulkan \<Rightarrow> RendererVulkan \<Rightarrow> bool" where
  "composes s s' = (grows s s' \<and> list_all composing (since s s') \<and>
      screenshot_requested s' = screenshot_requested s)"

subsection \<open>A concrete setting\<close>

text \<open>
  A top screen of 240 by 400 pixels with 4 bytes per pixel, a window of 800 by 480, a
  rasterizer that accelerates every display, and allocations that succeed.
\<close>

definition example_framebuffer :: FramebufferConfig where
  "example_framebuffer =
     \<lparr>fb_width = 240, fb_height = 400, fb_color_format = 0, fb_stride = 960, fb_active_fb = 0,
      address_left1 = 0x18000000, address_left2 = 0x18100000,
      address_right1 = 0x18200000, address_right2 = 0x18300000\<rparr>"

definition unit_coords :: "f32 Rectangle" where
  "unit_coords = \<lparr>r_left = 0, r_top = 0, r_right = 1, r_bottom = 1\<rparr>"

definition example_frame :: Frame where
  "example_frame =
     \<lparr>frame_width = 800, frame_height = 480, frame_image = 20, frame_allocation = 21,
      frame_image_view = 22, frame_framebuffer = 23, render_ready = 24\<rparr>"

definition example_World :: World where
  "example_World =
     \<lparr>g_framebuffer_config = (\<lambda>fb_id. example_framebuffer),
      LCD_Read = (\<lambda>reg. \<lparr>is_enabled = False, color_r = 0, color_g = 0, color_b = 0\<rparr>),
      BytesPerPixel = (\<lambda>format. 4),
      GetWidth = (\<lambda>r. r_right r - r_left r),
      GetHeight = (\<lambda>r. r_bottom r - r_top r),
      w_AccelerateDisplay = (\<lambda>tr fb addr stride info. Some (9, unit_coords)),
      w_vmaCreateImage = (\<lambda>tr width height format. Some (3, 4)),
      w_createImageView = (\<lambda>tr img. 5),
      w_vmaCreateBuffer = (\<lambda>tr size. Some (6, 7)),
      w_Map = (\<lambda>tr. 0),
      w_uninitialized = (\<lambda>tr. (mk_ScreenRectVertex 0 0 0 0, mk_ScreenRectVertex 0 0 0 0,
                               mk_ScreenRectVertex 0 0 0 0, mk_ScreenRectVertex 0 0 0 0)),
      w_GetRenderFrame = (\<lambda>tr win. example_frame),
      w_frame_handles = (\<lambda>tr. (10, 11, 12, 13))\<rparr>"

text \<open>The same surroundings with the colour fill of both screens switched on, in red.\<close>

definition filling_World :: World where
  "filling_World =
     example_World\<lparr>LCD_Read := (\<lambda>reg. \<lparr>is_enabled = True, color_r = 255, color_g = 0, color_b = 0\<rparr>)\<rparr>"

definition example_Settings :: Settings where
  "example_Settings =
     \<lparr>render_3d = Off, mono_render_option = LeftEye, swap_screen = False, filter_mode = True,
      bg_red = 0, bg_green = 0, bg_blue = 0, resolution_scale_factor = 1\<rparr>"

definition example_layout :: FramebufferLayout where
  "example_layout =
     \<lparr>layout_width = 800, layout_height = 480, top_screen_enabled = True,
      bottom_screen_enabled = True, additional_screen_enabled = False,
      top_screen = \<lparr>r_left = 0, r_top = 0, r_right = 400, r_bottom = 240\<rparr>,
      bottom_screen = \<lparr>r_left = 40, r_top = 240, r_right = 360, r_bottom = 480\<rparr>,
      additional_screen = \<lparr>r_left = 0, r_top = 0, r_right = 0, r_bottom = 0\<rparr>,
      is_rotated = True,
      cardboard = \<lparr>top_screen_right_eye = 0, bottom_screen_right_eye = 40\<rparr>\<rparr>"

definition example_renderer :: RendererVulkan where
  "example_renderer =
     \<lparr>screen_infos = (\<lambda>i. \<lparr>texture = \<lparr>tex_width = 0, tex_height = 0, tex_format = 0,
                                        tex_image = 0, tex_image_view = 0, tex_allocation = 0\<rparr>,
                             texcoords = unit_coords, image_view = 0\<rparr>),
      current_pipeline = 0,
      draw_info = \<lparr>modelview = [], i_resolution = (0, 0, 0, 0), o_resolution = (0, 0, 0, 0),
                   screen_id_l = 0, screen_id_r = 0, layer = 0, reverse_interlaced = False\<rparr>,
      clear_color = (0, 0, 0, 1),
      screenshot_requested = False,
      bg_color_update_requested = False,
      shader_update_requested = False,
      screenshot_framebuffer_layout = example_layout,
      trace = []\<rparr>"

text \<open>The renderer with its three textures allocated at 240 by 400.\<close>

definition textured_renderer :: RendererVulkan where
  "textured_renderer =
     example_renderer
       \<lparr>screen_infos :=
          (\<lambda>i. \<lparr>texture = \<lparr>tex_width = 240, tex_height = 400, tex_format = 0,
                               tex_image = 30 + i, tex_image_view = 40 + i,
                               tex_allocation = 50 + i\<rparr>,
                    texcoords = unit_coords, image_view = 40 + i\<rparr>)\<rparr>"

section \<open>Properties\<close>

subsection \<open>ReloadPipeline\<close>

text \<open>
  C9. \<^verbatim>\<open>ReloadPipeline\<close> is idempotent: a second call under the same stereo setting
  returns the renderer of the first call, so the active pipeline index and the
  reverse-interlace flag are those of the first call. The index it derives is 1 for
  Anaglyph, 2 for Interlaced and ReverseInterlaced, and 0 for every other setting; in the
  two interlaced modes the flag is set, to true for ReverseInterlaced and to false for
  Interlaced (the other modes leave the flag as it was).
\<close>

theorem ReloadPipeline_idempotent:
  "ReloadPipeline S (ReloadPipeline S s) = ReloadPipeline S s
   \<and> current_pipeline (ReloadPipeline S s) =
       (case render_3d S of Anaglyph \<Rightarrow> 1 | Interlaced \<Rightarrow> 2 | ReverseInterlaced \<Rightarrow> 2 | _ \<Rightarrow> 0)
   \<and> reverse_interlaced (draw_info (ReloadPipeline S s)) =
       (case render_3d S of
          Interlaced \<Rightarrow> False
        | ReverseInterlaced \<Rightarrow> True
        | _ \<Rightarrow> reverse_interlaced (draw_info s))"
  by (cases "render_3d S") (simp_all add: ReloadPipeline_def)

subsection \<open>Traces of the drawing functions\<close>

lemma trace_emit [simp]: "trace (emit e s) = trace s @ [e]"
  by (simp add: emit_def)

lemma uploads_append [simp]: "uploads (xs @ ys) = uploads xs @ uploads ys"
  by (induction xs rule: uploads.induct) simp_all

lemma draw_uniforms_append [simp]: "draw_uniforms (xs @ ys) = draw_uniforms xs @ draw_uniforms ys"
  by (induction xs rule: draw_uniforms.induct) simp_all

lemma DrawSingleScreen_eq:
  "DrawSingleScreen W S i x y w h ori s =
     (case orientation_switch W (texcoords (screen_infos s i)) x y w h ori s of
        (vs, h', w', s1) \<Rightarrow>
          s\<lparr>trace := trace s1 @
                [VertexUpload vs, Record (CmdDraw (refreshed S s i h' w') (w_Map W (trace s1)))],
            draw_info := refreshed S s i h' w'\<rparr>)"
  by (cases ori)
    (simp_all add: DrawSingleScreen_def orientation_switch_def Let_def emit_def refreshed_def)

lemma DrawSingleScreenStereo_eq:
  "DrawSingleScreenStereo W S i j x y w h ori s =
     (case orientation_switch W (texcoords (screen_infos s i)) x y w h ori s of
        (vs, h', w', s1) \<Rightarrow>
          s\<lparr>trace := trace s1 @
                [VertexUpload vs,
                 Record (CmdDraw ((refreshed S s i h' w')\<lparr>screen_id_r := j\<rparr>) (w_Map W (trace s1)))],
            draw_info := (refreshed S s i h' w')\<lparr>screen_id_r := j\<rparr>\<rparr>)"
  by (cases ori)
    (simp_all add: DrawSingleScreenStereo_def orientation_switch_def Let_def emit_def
       refreshed_def)

subsection \<open>DrawSingleScreen\<close>

text \<open>
  C7. For a fixed rectangle \<open>(x, y, w, h)\<close>, the output-resolution entry of the uniform
  block that \<^verbatim>\<open>DrawSingleScreen\<close> records is \<open>(h, w, 1/h, 1/w)\<close> under Landscape and
  LandscapeFlipped, and its width/height swap under Portrait and PortraitFlipped. The swap
  comes after the vertices are built: the four uploaded vertices of the portrait variants
  sit at the corners of the rectangle with its own \<open>w\<close> and \<open>h\<close>.
\<close>

theorem DrawSingleScreen_portrait_swaps_resolution:
  "map o_resolution (draw_uniforms (emitted (DrawSingleScreen W S i x y w h Landscape) s)) =
     [(h, w, 1 / h, 1 / w)]
   \<and> map o_resolution
       (draw_uniforms (emitted (DrawSingleScreen W S i x y w h LandscapeFlipped) s)) =
     [(h, w, 1 / h, 1 / w)]
   \<and> map o_resolution (draw_uniforms (emitted (DrawSingleScreen W S i x y w h Portrait) s)) =
     [swap_wh (h, w, 1 / h, 1 / w)]
   \<and> map o_resolution
       (draw_uniforms (emitted (DrawSingleScreen W S i x y w h PortraitFlipped) s)) =
     [swap_wh (h, w, 1 / h, 1 / w)]
   \<and> map (map position) (uploads (emitted (DrawSingleScreen W S i x y w h Portrait) s)) =
     [[(x, y), (x + w, y), (x, y + h), (x + w, y + h)]]
   \<and> map (map position) (uploads (emitted (DrawSingleScreen W S i x y w h PortraitFlipped) s)) =
     [[(x, y), (x + w, y), (x, y + h), (x + w, y + h)]]"
  by (simp add: emitted_def DrawSingleScreen_eq orientation_switch_def swap_wh_def
      refreshed_def mk_ScreenRectVertex_def)



subsection \<open>DrawTopScreen\<close>

lemma screen_infos_DrawSingleScreen [simp]:
  "screen_infos (DrawSingleScreen W S i x y w h ori s) = screen_infos s"
  by (cases ori) (simp_all add: DrawSingleScreen_eq orientation_switch_def)

lemma set_layer_simps [simp]:
  "trace (set_layer n s) = trace s" "screen_infos (set_layer n s) = screen_infos s"
  by (simp_all add: set_layer_def)



lemma screen_id_l_DrawSingleScreen [simp]:
  "screen_id_l (draw_info (DrawSingleScreen W S i x y w h ori s)) = i"
  by (cases ori) (simp_all add: DrawSingleScreen_eq orientation_switch_def refreshed_def)





text \<open>Above \<open>2^24\<close> the conversion rounds, and two different values can convert to one.\<close>

lemma to_float_rounds:
  "to_float 16777217 = 16777216" "to_float 16777219 = 16777220"
  "to_float 4294967295 = 4294967296"
  by (simp_all add: to_float_def upt_rec Let_def)






subsection \<open>LoadFBToScreenInfo\<close>

lemma LoadFB_checked:
  "stride_ok W fb \<Longrightarrow>
   LoadFBToScreenInfo W fb i right_eye s =
     (case w_AccelerateDisplay W (trace s) fb (framebuffer_addr fb right_eye) (pixel_stride_of W fb)
             (screen_infos s i) of
        Some (view, coords) \<Rightarrow>
          Inr (s\<lparr>trace := trace s @ [AccelerateDisplay fb (framebuffer_addr fb right_eye) (pixel_stride_of W fb)],
                screen_infos := (screen_infos s)
                  (i := (screen_infos s i)\<lparr>image_view := view, texcoords := coords\<rparr>)\<rparr>)
      | None \<Rightarrow>
          Inl (AssertionFailed,
               s\<lparr>trace := trace s @ [AccelerateDisplay fb (framebuffer_addr fb right_eye) (pixel_stride_of W fb)],
                 screen_infos := (screen_infos s)
                  (i := (screen_infos s i)
                     \<lparr>image_view := tex_image_view (texture (screen_infos s i)),
                      texcoords := \<lparr>r_left = 0, r_top = 0, r_right = 1, r_bottom = 1\<rparr>\<rparr>)\<rparr>))"
  by (auto simp: LoadFBToScreenInfo_def stride_ok_def pixel_stride_of_def Let_def emit_def
      split: option.splits)

text \<open>
  C10. When \<^verbatim>\<open>address_right1\<close> or \<^verbatim>\<open>address_right2\<close> of the descriptor is 0, the
  address \<^verbatim>\<open>LoadFBToScreenInfo\<close> uses is the left-eye address of the active buffer
  (\<^verbatim>\<open>address_left1\<close> when \<^verbatim>\<open>active_fb\<close> is 0, else \<^verbatim>\<open>address_left2\<close>), whatever
  \<^verbatim>\<open>right_eye\<close> the caller passed; where the stride checks pass, this is the address
  handed to \<^verbatim>\<open>AccelerateDisplay\<close>.
\<close>

theorem LoadFBToScreenInfo_right_eye_downgraded:
  assumes "address_right1 fb = 0 \<or> address_right2 fb = 0"
  shows "framebuffer_addr fb right_eye =
           (if fb_active_fb fb = 0 then address_left1 fb else address_left2 fb)
         \<and> (stride_ok W fb \<longrightarrow>
             emitted_until_end (LoadFBToScreenInfo W fb i right_eye) s =
               [AccelerateDisplay fb (if fb_active_fb fb = 0 then address_left1 fb else address_left2 fb)
                  (pixel_stride_of W fb)])"
  using assms
  by (auto simp: LoadFB_checked emitted_until_end_def final_def framebuffer_addr_def
      split: option.splits)

theorem LoadFBToScreenInfo_right_eye_downgraded_witness:
  "(address_right1 (example_framebuffer\<lparr>address_right2 := 0\<rparr>) = 0
     \<or> address_right2 (example_framebuffer\<lparr>address_right2 := 0\<rparr>) = 0)
   \<and> stride_ok example_World (example_framebuffer\<lparr>address_right2 := 0\<rparr>)
   \<and> framebuffer_addr (example_framebuffer\<lparr>address_right2 := 0\<rparr>) True = 0x18000000
   \<and> emitted_until_end
        (LoadFBToScreenInfo example_World (example_framebuffer\<lparr>address_right2 := 0\<rparr>) 1 True)
        example_renderer =
      [AccelerateDisplay (example_framebuffer\<lparr>address_right2 := 0\<rparr>) 0x18000000 240]"
  using LoadFBToScreenInfo_right_eye_downgraded [of "example_framebuffer\<lparr>address_right2 := 0\<rparr>" True example_World 1 example_renderer]
  by (simp add: example_framebuffer_def example_World_def stride_ok_def pixel_stride_of_def)

text \<open>
  C3, as the code has it. When \<^verbatim>\<open>AccelerateDisplay\<close> answers false, the call never
  returns normally. Where the stride checks pass, the display view of the screen is reset
  to the view of its own texture and the texture coordinates to \<open>(0, 0, 1, 1)\<close>, and then
  \<^verbatim>\<open>ASSERT(false)\<close> fails: the run ends with \<open>AssertionFailed\<close>, and nothing is uploaded.
\<close>

theorem LoadFBToScreenInfo_not_accelerated_asserts:
  assumes "w_AccelerateDisplay W (trace s) fb (framebuffer_addr fb right_eye)
             (pixel_stride_of W fb) (screen_infos s i) = None"
  shows "isl (LoadFBToScreenInfo W fb i right_eye s)
         \<and> (stride_ok W fb \<longrightarrow>
              LoadFBToScreenInfo W fb i right_eye s =
                Inl (AssertionFailed,
                  s\<lparr>trace := trace s @
                       [AccelerateDisplay fb (framebuffer_addr fb right_eye) (pixel_stride_of W fb)],
                    screen_infos := (screen_infos s)
                      (i := (screen_infos s i)
                         \<lparr>image_view := tex_image_view (texture (screen_infos s i)),
                          texcoords := \<lparr>r_left = 0, r_top = 0, r_right = 1, r_bottom = 1\<rparr>\<rparr>)\<rparr>))"
proof (cases "stride_ok W fb")
  case True
  then show ?thesis using assms by (simp add: LoadFB_checked)
next
  case False
  then show ?thesis
    by (auto simp: LoadFBToScreenInfo_def stride_ok_def Let_def)
qed

theorem LoadFBToScreenInfo_not_accelerated_asserts_witness:
  "w_AccelerateDisplay (example_World\<lparr>w_AccelerateDisplay := (\<lambda>tr fb addr stride info. None)\<rparr>)
      (trace example_renderer) example_framebuffer (framebuffer_addr example_framebuffer False)
      (pixel_stride_of (example_World\<lparr>w_AccelerateDisplay := (\<lambda>tr fb addr stride info. None)\<rparr>)
         example_framebuffer) (screen_infos example_renderer 0) = None
   \<and> stride_ok (example_World\<lparr>w_AccelerateDisplay := (\<lambda>tr fb addr stride info. None)\<rparr>)
        example_framebuffer
   \<and> isl (LoadFBToScreenInfo
        (example_World\<lparr>w_AccelerateDisplay := (\<lambda>tr fb addr stride info. None)\<rparr>)
        example_framebuffer 0 False example_renderer)"
  using LoadFBToScreenInfo_not_accelerated_asserts [of "example_World\<lparr>w_AccelerateDisplay := (\<lambda>tr fb addr stride info. None)\<rparr>"
      example_renderer example_framebuffer False 0]
  by (simp add: example_World_def example_framebuffer_def stride_ok_def)

text \<open>
  C3, as the spec states it, fails: in the concrete setting with a rasterizer that does not
  accelerate, the call for slot 0 does not continue.
\<close>

theorem LoadFBToScreenInfo_not_accelerated_no_return:
  "\<not> (\<exists>s'. LoadFBToScreenInfo
        (example_World\<lparr>w_AccelerateDisplay := (\<lambda>tr fb addr stride info. None)\<rparr>)
        example_framebuffer 0 False example_renderer = Inr s')"
  by (simp add: LoadFBToScreenInfo_def example_World_def example_framebuffer_def Let_def)

subsection \<open>PrepareRendertarget\<close>

lemma reallocations_append [simp]: "reallocations (xs @ ys) = reallocations xs + reallocations ys"
  by (induction xs rule: reallocations.induct) simp_all

lemma grows_refl [simp]: "grows s s" "since s s = []"
  by (simp_all add: grows_def since_def)

lemma grows_trans:
  "grows s s' \<Longrightarrow> grows s' s'' \<Longrightarrow> grows s s'' \<and> since s s'' = since s s' @ since s' s''"
  by (metis (no_types, lifting) append.assoc append_eq_conv_conj grows_def since_def)

lemma Configure_Inr:
  assumes "ConfigureFramebufferTexture W i fb s = Inr s'"
  shows "grows s s'" "reallocations (since s s') = 1"
    "j \<noteq> i \<Longrightarrow> screen_infos s' j = screen_infos s j"
    "tex_desc (texture (screen_infos s' i)) = fb_desc fb"
  using assms
  by (auto simp: ConfigureFramebufferTexture_def Let_def set_texture_def emit_def grows_def
      since_def tex_desc_def fb_desc_def split: option.splits if_splits)

lemma Configure_Inl:
  assumes "ConfigureFramebufferTexture W i fb s = Inl (e, s')"
  shows "grows s s'" "reallocations (since s s') = 1"
  using assms
  by (auto simp: ConfigureFramebufferTexture_def Let_def set_texture_def emit_def grows_def
      since_def split: option.splits if_splits)

lemma LoadFB_Inr:
  assumes "LoadFBToScreenInfo W fb i re s = Inr s'"
  shows "grows s s'" "reallocations (since s s') = 0"
    "j \<noteq> i \<Longrightarrow> screen_infos s' j = screen_infos s j"
    "texture (screen_infos s' i) = texture (screen_infos s i)"
  using assms
  by (auto simp: LoadFBToScreenInfo_def Let_def emit_def grows_def since_def
      split: option.splits if_splits)

lemma LoadFB_Inl:
  assumes "LoadFBToScreenInfo W fb i re s = Inl (e, s')"
  shows "grows s s'" "reallocations (since s s') = 0"
  using assms
  by (auto simp: LoadFBToScreenInfo_def Let_def emit_def grows_def since_def
      split: option.splits if_splits)

lemma slot_filled:
  "is_enabled (slot_color_fill W i) \<Longrightarrow>
   PrepareRendertarget_slot W i s =
     Inr (s\<lparr>trace := trace s @
            [EndRendering,
             Record (CmdClearColor (tex_image (texture (screen_infos s i)))
               (real (unat (color_r (slot_color_fill W i))) / 255,
                real (unat (color_g (slot_color_fill W i))) / 255,
                real (unat (color_b (slot_color_fill W i))) / 255, 1))]\<rparr>)"
  by (simp add: PrepareRendertarget_slot_def LoadColorToActiveVkTexture_def Let_def emit_def)

lemma slot_Inr:
  assumes "PrepareRendertarget_slot W i s = Inr s'"
  shows "grows s s' \<and>
      reallocations (since s s') = (if realloc_needed W s i then 1 else 0) \<and>
      (\<forall>j. j \<noteq> i \<longrightarrow> screen_infos s' j = screen_infos s j) \<and>
      tex_desc (texture (screen_infos s' i)) =
       (if is_enabled (slot_color_fill W i) then tex_desc (texture (screen_infos s i))
        else fb_desc (slot_framebuffer W i))"
proof (cases "is_enabled (slot_color_fill W i)")
  case True
  with assms have "s' = s\<lparr>trace := trace s @
          [EndRendering,
           Record (CmdClearColor (tex_image (texture (screen_infos s i)))
             (real (unat (color_r (slot_color_fill W i))) / 255,
              real (unat (color_g (slot_color_fill W i))) / 255,
              real (unat (color_b (slot_color_fill W i))) / 255, 1))]\<rparr>"
    by (simp add: slot_filled)
  with True show ?thesis
    by (simp add: grows_def since_def realloc_needed_def)
next
  case False
  let ?fb = "slot_framebuffer W i"
  obtain s1 where s1: "(if texture_differs (texture (screen_infos s i)) ?fb
               then ConfigureFramebufferTexture W i ?fb s else Inr s) = Inr s1"
    using assms False
    by (auto simp: PrepareRendertarget_slot_def Let_def and_then_def split: sum.splits)
  obtain s2 where s2: "LoadFBToScreenInfo W ?fb i (i = 1) s1 = Inr s2"
    using assms False s1
    by (auto simp: PrepareRendertarget_slot_def Let_def and_then_def split: sum.splits)
  have s': "s' = set_texture i ((texture (screen_infos s2 i))
               \<lparr>tex_width := fb_width ?fb, tex_height := fb_height ?fb\<rparr>) s2"
    using assms False s1 s2
    by (auto simp: PrepareRendertarget_slot_def Let_def and_then_def split: sum.splits)
  have g1: "grows s s1"
    and r1: "reallocations (since s s1) = (if realloc_needed W s i then 1 else 0)"
    and f1: "\<forall>j. j \<noteq> i \<longrightarrow> screen_infos s1 j = screen_infos s j"
    and d1: "tex_format (texture (screen_infos s1 i)) = fb_color_format ?fb"
    using s1 False Configure_Inr [of W i ?fb s s1]
    by (auto simp: realloc_needed_def texture_differs_def tex_desc_def fb_desc_def
        split: if_splits)
  have g2: "grows s1 s2" and r2: "reallocations (since s1 s2) = 0"
    and f2: "\<forall>j. j \<noteq> i \<longrightarrow> screen_infos s2 j = screen_infos s1 j"
    and d2: "texture (screen_infos s2 i) = texture (screen_infos s1 i)"
    using LoadFB_Inr [OF s2] by auto
  have g3: "grows s2 s'" and r3: "since s2 s' = []"
    by (simp_all add: s' set_texture_def grows_def since_def)
  from grows_trans [OF g1 g2] have g12: "grows s s2" and e12: "since s s2 = since s s1 @ since s1 s2"
    by simp_all
  from grows_trans [OF g12 g3] have g: "grows s s'" and e: "since s s' = since s s2 @ since s2 s'"
    by simp_all
  show ?thesis
    using g e e12 r1 r2 r3 f1 f2 d1 d2 False
    by (simp add: s' set_texture_def tex_desc_def fb_desc_def)
qed

lemma slot_Inl:
  assumes "PrepareRendertarget_slot W i s = Inl (e, s')"
  shows "grows s s' \<and> reallocations (since s s') = (if realloc_needed W s i then 1 else 0)"
proof -
  let ?fb = "slot_framebuffer W i"
  from assms have nf: "\<not> is_enabled (slot_color_fill W i)"
    by (auto simp: slot_filled)
  show ?thesis
  proof (cases "(if texture_differs (texture (screen_infos s i)) ?fb
               then ConfigureFramebufferTexture W i ?fb s else Inr s)")
    case (Inl a)
    with assms nf have a: "a = (e, s')"
      by (auto simp: PrepareRendertarget_slot_def Let_def and_then_def split: sum.splits)
    with Inl nf show ?thesis
      using Configure_Inl [of W i ?fb s e s']
      by (auto simp: realloc_needed_def split: if_splits)
  next
    case (Inr s1)
    with assms nf have l: "LoadFBToScreenInfo W ?fb i (i = 1) s1 = Inl (e, s')"
      by (auto simp: PrepareRendertarget_slot_def Let_def and_then_def split: sum.splits)
    have g1: "grows s s1"
      and r1: "reallocations (since s s1) = (if realloc_needed W s i then 1 else 0)"
      using Inr nf Configure_Inr(1,2) [of W i ?fb s s1]
      by (auto simp: realloc_needed_def split: if_splits)
    from grows_trans [OF g1 LoadFB_Inl(1) [OF l]] LoadFB_Inl(2) [OF l] r1
    show ?thesis by simp
  qed
qed

lemma realloc_needed_cong:
  "screen_infos s' i = screen_infos s i \<Longrightarrow> realloc_needed W s' i = realloc_needed W s i"
  by (simp add: realloc_needed_def)

lemma call_Inr:
  assumes "PrepareRendertarget W s = Inr s'"
  shows "grows s s' \<and>
      reallocations (since s s') = length (filter (realloc_needed W s) [0, 1, 2]) \<and>
      (\<forall>i<3. tex_desc (texture (screen_infos s' i)) =
         (if is_enabled (slot_color_fill W i) then tex_desc (texture (screen_infos s i))
          else fb_desc (slot_framebuffer W i)))"
proof -
  obtain s1 where s1: "PrepareRendertarget_slot W 0 s = Inr s1"
    using assms by (auto simp: PrepareRendertarget_def and_then_def split: sum.splits)
  obtain s2 where s2: "PrepareRendertarget_slot W 1 s1 = Inr s2"
    using assms s1 by (auto simp: PrepareRendertarget_def and_then_def split: sum.splits)
  have s3: "PrepareRendertarget_slot W 2 s2 = Inr s'"
    using assms s1 s2 by (auto simp: PrepareRendertarget_def and_then_def split: sum.splits)
  note a = slot_Inr [OF s1] and b = slot_Inr [OF s2] and c = slot_Inr [OF s3]
  have fa: "screen_infos s1 1 = screen_infos s 1" "screen_infos s1 2 = screen_infos s 2"
    using a by simp_all
  have fb: "screen_infos s2 0 = screen_infos s1 0" "screen_infos s2 2 = screen_infos s1 2"
    using b by simp_all
  have fc: "screen_infos s' 0 = screen_infos s2 0" "screen_infos s' 1 = screen_infos s2 1"
    using c by simp_all
  have n1: "realloc_needed W s1 1 = realloc_needed W s 1"
    by (rule realloc_needed_cong) (rule fa)
  have n2: "realloc_needed W s2 2 = realloc_needed W s 2"
    by (rule realloc_needed_cong) (simp add: fa fb)
  have ra: "reallocations (since s s1) = (if realloc_needed W s 0 then 1 else 0)"
    using a by blast
  have rb: "reallocations (since s1 s2) = (if realloc_needed W s 1 then 1 else 0)"
    using b n1 by simp
  have rc: "reallocations (since s2 s') = (if realloc_needed W s 2 then 1 else 0)"
    using c n2 by simp
  have ga: "grows s s1" using a by blast
  have gb: "grows s1 s2" using b by blast
  have gc: "grows s2 s'" using c by blast
  from grows_trans [OF ga gb] have g2: "grows s s2" and e2: "since s s2 = since s s1 @ since s1 s2"
    by simp_all
  from grows_trans [OF g2 gc] have g: "grows s s'" and e: "since s s' = since s s2 @ since s2 s'"
    by simp_all
  have r: "reallocations (since s s') = length (filter (realloc_needed W s) [0, 1, 2])"
    by (simp add: e e2 ra rb rc)
  have da: "tex_desc (texture (screen_infos s1 0)) =
         (if is_enabled (slot_color_fill W 0) then tex_desc (texture (screen_infos s 0))
          else fb_desc (slot_framebuffer W 0))"
    using a by blast
  have db: "tex_desc (texture (screen_infos s2 1)) =
         (if is_enabled (slot_color_fill W 1) then tex_desc (texture (screen_infos s1 1))
          else fb_desc (slot_framebuffer W 1))"
    using b by blast
  have dc: "tex_desc (texture (screen_infos s' 2)) =
         (if is_enabled (slot_color_fill W 2) then tex_desc (texture (screen_infos s2 2))
          else fb_desc (slot_framebuffer W 2))"
    using c by blast
  have d: "tex_desc (texture (screen_infos s' i)) =
         (if is_enabled (slot_color_fill W i) then tex_desc (texture (screen_infos s i))
          else fb_desc (slot_framebuffer W i))" if "i < 3" for i
  proof -
    from that consider "i = 0" | "i = 1" | "i = 2" by linarith
    then show ?thesis
    proof cases
      case 1
      then show ?thesis using da by (simp add: fc fb)
    next
      case 2
      then show ?thesis using db by (simp add: fc fa del: One_nat_def)
    next
      case 3
      then show ?thesis using dc by (simp add: fb fa)
    qed
  qed
  show ?thesis using g r d by blast
qed

lemma calls_Inr:
  "PrepareRendertarget_calls Ws s = Inr s' \<Longrightarrow> i < 3 \<Longrightarrow>
   tex_desc (texture (screen_infos s' i)) = last_loaded Ws i (tex_desc (texture (screen_infos s i)))"
proof (induction Ws arbitrary: s)
  case Nil
  then show ?case by simp
next
  case (Cons W Ws)
  then obtain s1 where s1: "PrepareRendertarget W s = Inr s1"
    and rest: "PrepareRendertarget_calls Ws s1 = Inr s'"
    by (auto simp: and_then_def split: sum.splits)
  from call_Inr [OF s1] Cons.prems(2)
  have "tex_desc (texture (screen_infos s1 i)) =
         (if is_enabled (slot_color_fill W i) then tex_desc (texture (screen_infos s i))
          else fb_desc (slot_framebuffer W i))" by blast
  with Cons.IH [OF rest Cons.prems(2)] show ?case by simp
qed

text \<open>
  C1, as the code has it. After a sequence of \<^verbatim>\<open>PrepareRendertarget\<close> calls that all
  return, the (width, height, format) of each slot is the guest descriptor of the last call
  in which the colour fill of that slot was off, or what the slot held at the start if
  there is no such call: a call with the colour fill on leaves the triple as it was. In one
  iteration of the loop, for the slot \<open>i\<close>, \<^verbatim>\<open>ConfigureFramebufferTexture\<close> is invoked
  (once) if and only if the colour fill is off and one of the three fields differs from the
  descriptor, whether the iteration returns or ends in a fatal error; a call that returns
  makes as many allocations as there are such slots.
\<close>

theorem PrepareRendertarget_texture_info:
  "(PrepareRendertarget_calls Ws s = Inr s' \<and> i < 3 \<longrightarrow>
      tex_desc (texture (screen_infos s' i)) =
        last_loaded Ws i (tex_desc (texture (screen_infos s i))))
   \<and> reallocations (emitted_until_end (PrepareRendertarget_slot W i) s) =
        (if realloc_needed W s i then 1 else 0)
   \<and> (PrepareRendertarget W s = Inr s'' \<longrightarrow>
        reallocations (emitted_until_end (PrepareRendertarget W) s) =
          length (filter (realloc_needed W s) [0, 1, 2]))"
proof -
  have 2: "reallocations (emitted_until_end (PrepareRendertarget_slot W i) s) =
        (if realloc_needed W s i then 1 else 0)"
  proof (cases "PrepareRendertarget_slot W i s")
    case (Inl a)
    obtain e s1 where "a = (e, s1)" by (cases a)
    with Inl slot_Inl [of W i s e s1] show ?thesis
      by (simp add: emitted_until_end_def final_def since_def)
  next
    case (Inr s1)
    with slot_Inr [of W i s s1] show ?thesis
      by (simp add: emitted_until_end_def final_def since_def)
  qed
  have 3: "reallocations (emitted_until_end (PrepareRendertarget W) s) =
          length (filter (realloc_needed W s) [0, 1, 2])" if "PrepareRendertarget W s = Inr s''"
    using call_Inr [OF that] that by (simp add: emitted_until_end_def final_def since_def)
  show ?thesis using calls_Inr [of Ws s s' i] 2 3 by blast
qed

theorem PrepareRendertarget_texture_info_witness:
  "PrepareRendertarget_calls [example_World, filling_World] example_renderer =
     Inr (final (PrepareRendertarget_calls [example_World, filling_World] example_renderer))
   \<and> (0::nat) < 3
   \<and> PrepareRendertarget example_World example_renderer =
       Inr (final (PrepareRendertarget example_World example_renderer))
   \<and> tex_desc (texture (screen_infos
        (final (PrepareRendertarget_calls [example_World, filling_World] example_renderer)) 0)) =
       (240, 400, 0)
   \<and> reallocations (emitted_until_end (PrepareRendertarget example_World) example_renderer) = 3"
proof -
  have a: "PrepareRendertarget example_World example_renderer =
       Inr (final (PrepareRendertarget example_World example_renderer))"
    by (simp add: PrepareRendertarget_def PrepareRendertarget_slot_def and_then_def
        slot_color_fill_def slot_framebuffer_def example_World_def example_renderer_def
        example_framebuffer_def texture_differs_def ConfigureFramebufferTexture_def
        LoadFBToScreenInfo_def Let_def final_def set_texture_def emit_def)
  have b: "PrepareRendertarget_calls [example_World, filling_World] example_renderer =
     Inr (final (PrepareRendertarget_calls [example_World, filling_World] example_renderer))"
    by (simp add: PrepareRendertarget_def PrepareRendertarget_slot_def and_then_def
        slot_color_fill_def slot_framebuffer_def example_World_def example_renderer_def
        example_framebuffer_def texture_differs_def ConfigureFramebufferTexture_def
        LoadFBToScreenInfo_def Let_def final_def set_texture_def emit_def filling_World_def
        LoadColorToActiveVkTexture_def)
  show ?thesis
    using PrepareRendertarget_texture_info [of "[example_World, filling_World]" example_renderer
        "final (PrepareRendertarget_calls [example_World, filling_World] example_renderer)" 0
        example_World "final (PrepareRendertarget example_World example_renderer)"] a b
    by (simp add: realloc_needed_def slot_color_fill_def slot_framebuffer_def example_World_def
        example_renderer_def example_framebuffer_def texture_differs_def filling_World_def
        tex_desc_def fb_desc_def)
qed

text \<open>
  C1, as the spec states it, fails when the colour fill is on: the call returns, slot 0
  still holds \<open>(0, 0, 0)\<close> where the descriptor says \<open>(240, 400, 0)\<close>, and nothing was
  reallocated although the fields differ.
\<close>

theorem PrepareRendertarget_color_fill_keeps_texture_info:
  "\<not> isl (PrepareRendertarget filling_World example_renderer)
   \<and> texture_differs (texture (screen_infos example_renderer 0)) (slot_framebuffer filling_World 0)
   \<and> texture_differs (texture (screen_infos (final (PrepareRendertarget filling_World example_renderer)) 0))
        (slot_framebuffer filling_World 0)
   \<and> reallocations (emitted_until_end (PrepareRendertarget filling_World) example_renderer) = 0"
  by (simp add: PrepareRendertarget_def slot_filled and_then_def filling_World_def example_World_def
      slot_color_fill_def slot_framebuffer_def example_renderer_def example_framebuffer_def
      texture_differs_def final_def emitted_until_end_def)

lemma since_mono:
  assumes "grows s s1" "grows s1 s2"
  shows "set (since s s1) \<subseteq> set (since s s2)" "set (since s1 s2) \<subseteq> set (since s s2)"
  using grows_trans [OF assms] by auto

lemma slot_filled_since:
  assumes "is_enabled (slot_color_fill W i)" "PrepareRendertarget_slot W i s = Inr s'"
  shows "Record (CmdClearColor (tex_image (texture (screen_infos s i)))
               (real (unat (color_r (slot_color_fill W i))) / 255,
                real (unat (color_g (slot_color_fill W i))) / 255,
                real (unat (color_b (slot_color_fill W i))) / 255, 1)) \<in> set (since s s')"
  using assms by (auto simp: slot_filled since_def)

lemma call_clears:
  assumes "PrepareRendertarget W s = Inr s'" "i < 3" "is_enabled (slot_color_fill W i)"
  shows "Record (CmdClearColor (tex_image (texture (screen_infos s i)))
               (real (unat (color_r (slot_color_fill W i))) / 255,
                real (unat (color_g (slot_color_fill W i))) / 255,
                real (unat (color_b (slot_color_fill W i))) / 255, 1))
          \<in> set (emitted_until_end (PrepareRendertarget W) s)"
proof -
  obtain s1 where s1: "PrepareRendertarget_slot W 0 s = Inr s1"
    using assms(1) by (auto simp: PrepareRendertarget_def and_then_def split: sum.splits)
  obtain s2 where s2: "PrepareRendertarget_slot W 1 s1 = Inr s2"
    using assms(1) s1 by (auto simp: PrepareRendertarget_def and_then_def split: sum.splits)
  have s3: "PrepareRendertarget_slot W 2 s2 = Inr s'"
    using assms(1) s1 s2 by (auto simp: PrepareRendertarget_def and_then_def split: sum.splits)
  note a = slot_Inr [OF s1] and b = slot_Inr [OF s2] and c = slot_Inr [OF s3]
  have ga: "grows s s1" using a by blast
  have gb: "grows s1 s2" using b by blast
  have gc: "grows s2 s'" using c by blast
  have g2: "grows s s2" using grows_trans [OF ga gb] by simp
  have f1: "screen_infos s1 1 = screen_infos s 1" using a by simp
  have f2: "screen_infos s2 2 = screen_infos s 2" using a b by simp
  have em: "emitted_until_end (PrepareRendertarget W) s = since s s'"
    by (simp add: emitted_until_end_def final_def since_def assms(1))
  from assms(2) consider "i = 0" | "i = 1" | "i = 2" by linarith
  then show ?thesis
  proof cases
    case 1
    with assms(3) s1 have "Record (CmdClearColor (tex_image (texture (screen_infos s i)))
               (real (unat (color_r (slot_color_fill W i))) / 255,
                real (unat (color_g (slot_color_fill W i))) / 255,
                real (unat (color_b (slot_color_fill W i))) / 255, 1)) \<in> set (since s s1)"
      using slot_filled_since [of W 0 s s1] by simp
    then show ?thesis
      using since_mono(1) [OF ga gb] since_mono(1) [OF g2 gc] by (auto simp: em)
  next
    case 2
    with assms(3) s2 have "Record (CmdClearColor (tex_image (texture (screen_infos s i)))
               (real (unat (color_r (slot_color_fill W i))) / 255,
                real (unat (color_g (slot_color_fill W i))) / 255,
                real (unat (color_b (slot_color_fill W i))) / 255, 1)) \<in> set (since s1 s2)"
      using slot_filled_since [of W 1 s1 s2] by (simp add: f1 del: One_nat_def)
    then show ?thesis
      using since_mono(2) [OF ga gb] since_mono(1) [OF g2 gc] by (auto simp: em)
  next
    case 3
    with assms(3) s3 have "Record (CmdClearColor (tex_image (texture (screen_infos s i)))
               (real (unat (color_r (slot_color_fill W i))) / 255,
                real (unat (color_g (slot_color_fill W i))) / 255,
                real (unat (color_b (slot_color_fill W i))) / 255, 1)) \<in> set (since s2 s')"
      using slot_filled_since [of W 2 s2 s'] by (simp add: f2)
    then show ?thesis
      using since_mono(2) [OF g2 gc] by (auto simp: em)
  qed
qed

text \<open>
  C8. In the iteration of \<^verbatim>\<open>PrepareRendertarget\<close> for a slot whose colour-fill register
  is enabled with the bytes \<open>(r, g, b)\<close>, the renderer ends the current render pass and
  records one transfer that clears the image of the slot to \<open>(r/255, g/255, b/255, 1)\<close>.
  These are the only two events: no call of \<^verbatim>\<open>AccelerateDisplay\<close> (the only reader of
  guest framebuffer memory) and no allocation; the renderer is otherwise unchanged, and the
  iteration returns. In a call that returns, that clear of the slot's image is among the
  events of the call.
\<close>

theorem PrepareRendertarget_color_fill_clears:
  assumes "is_enabled (slot_color_fill W i)"
  shows "PrepareRendertarget_slot W i s =
     Inr (s\<lparr>trace := trace s @
            [EndRendering,
             Record (CmdClearColor (tex_image (texture (screen_infos s i)))
               (real (unat (color_r (slot_color_fill W i))) / 255,
                real (unat (color_g (slot_color_fill W i))) / 255,
                real (unat (color_b (slot_color_fill W i))) / 255, 1))]\<rparr>)
    \<and> emitted_until_end (PrepareRendertarget_slot W i) s =
            [EndRendering,
             Record (CmdClearColor (tex_image (texture (screen_infos s i)))
               (real (unat (color_r (slot_color_fill W i))) / 255,
                real (unat (color_g (slot_color_fill W i))) / 255,
                real (unat (color_b (slot_color_fill W i))) / 255, 1))]
    \<and> (PrepareRendertarget W s = Inr s' \<and> i < 3 \<longrightarrow>
          Record (CmdClearColor (tex_image (texture (screen_infos s i)))
               (real (unat (color_r (slot_color_fill W i))) / 255,
                real (unat (color_g (slot_color_fill W i))) / 255,
                real (unat (color_b (slot_color_fill W i))) / 255, 1))
            \<in> set (emitted_until_end (PrepareRendertarget W) s))"
  using assms call_clears [of W s s' i]
  by (simp add: slot_filled emitted_until_end_def final_def)

theorem PrepareRendertarget_color_fill_clears_witness:
  "is_enabled (slot_color_fill filling_World 2)
   \<and> PrepareRendertarget filling_World textured_renderer =
       Inr (final (PrepareRendertarget filling_World textured_renderer))
   \<and> (2::nat) < 3
   \<and> emitted_until_end (PrepareRendertarget_slot filling_World 2) textured_renderer =
       [EndRendering, Record (CmdClearColor 32 (1, 0, 0, 1))]
   \<and> Record (CmdClearColor 32 (1, 0, 0, 1))
       \<in> set (emitted_until_end (PrepareRendertarget filling_World) textured_renderer)"
proof -
  have f: "is_enabled (slot_color_fill filling_World i)" for i
    by (simp add: filling_World_def slot_color_fill_def)
  have r: "PrepareRendertarget filling_World textured_renderer =
       Inr (final (PrepareRendertarget filling_World textured_renderer))"
    by (simp add: PrepareRendertarget_def and_then_def slot_filled f final_def)
  show ?thesis
    using PrepareRendertarget_color_fill_clears [of filling_World 2 textured_renderer
        "final (PrepareRendertarget filling_World textured_renderer)"] f r
    by (simp add: filling_World_def slot_color_fill_def example_World_def textured_renderer_def)
qed

subsection \<open>DrawScreens\<close>

lemma composes_refl [simp]: "composes s s"
  by (simp add: composes_def)

lemma composes_trans: "composes s s' \<Longrightarrow> composes s' s'' \<Longrightarrow> composes s s''"
  using grows_trans [of s s' s''] by (auto simp: composes_def)

lemma composes_emit:
  "composing e \<Longrightarrow> composes s (emit e s)"
  by (simp add: composes_def grows_def since_def emit_def)

lemma composes_DrawSingleScreen:
  "composes s s1 \<Longrightarrow> composes s (DrawSingleScreen W S i x y w h ori s1)"
  by (erule composes_trans, cases ori)
    (simp_all add: composes_def grows_def since_def DrawSingleScreen_eq orientation_switch_def
       emit_def)

lemma composes_DrawSingleScreenStereo:
  "composes s s1 \<Longrightarrow> composes s (DrawSingleScreenStereo W S i j x y w h ori s1)"
  by (erule composes_trans, cases ori)
    (simp_all add: composes_def grows_def since_def DrawSingleScreenStereo_eq
       orientation_switch_def emit_def)

lemma composes_set_layer: "composes s s1 \<Longrightarrow> composes s (set_layer n s1)"
  by (erule composes_trans) (simp add: composes_def grows_def since_def set_layer_def)

lemma composes_DrawTopScreen:
  "composes s s1 \<Longrightarrow> composes s (DrawTopScreen W S layout r s1)"
  unfolding DrawTopScreen_def Let_def
  by (cases "render_3d S")
    (simp_all add: composes_DrawSingleScreen composes_DrawSingleScreenStereo composes_set_layer)

lemma composes_DrawBottomScreen:
  "composes s s1 \<Longrightarrow> composes s (DrawBottomScreen W S layout r s1)"
  unfolding DrawBottomScreen_def Let_def
  by (cases "render_3d S")
    (simp_all add: composes_DrawSingleScreen composes_DrawSingleScreenStereo composes_set_layer)

lemma composes_PrepareDraw: "composes s s1 \<Longrightarrow> composes s (PrepareDraw S frame layout s1)"
  by (erule composes_trans)
    (simp add: composes_def grows_def since_def PrepareDraw_def Let_def emit_def)

lemma composes_update: "composes s s1 \<Longrightarrow> composes s (update_shader S (update_bg_color S s1))"
  by (erule composes_trans, cases "render_3d S")
    (simp_all add: composes_def grows_def since_def update_shader_def update_bg_color_def
      ReloadPipeline_def)

lemma composes_modelview: "composes s s1 \<Longrightarrow> composes s (s1\<lparr>draw_info := d\<rparr>)"
  by (erule composes_trans) (simp add: composes_def grows_def since_def)

lemma composes_emit': "composing e \<Longrightarrow> composes s s1 \<Longrightarrow> composes s (emit e s1)"
  using composes_emit composes_trans by blast

lemma composes_DrawScreens: "composes s (DrawScreens W S frame layout flipped s)"
  unfolding DrawScreens_def Let_def
  by (simp add: composes_emit' composes_DrawTopScreen composes_DrawBottomScreen
      composes_set_layer composes_modelview composes_PrepareDraw composes_update)

lemma recreates_append [simp]: "recreates (xs @ ys) = recreates xs @ recreates ys"
  by (induction xs rule: recreates.induct) simp_all

lemma recreates_composing: "list_all composing es \<Longrightarrow> recreates es = []"
  by (induction es rule: recreates.induct) simp_all

lemma drained_composing:
  "list_all composing es \<Longrightarrow> (\<And>d. drained_before_recreate d rest) \<Longrightarrow>
   drained_before_recreate d (es @ rest)"
proof (induction es arbitrary: d)
  case Nil
  then show ?case by simp
next
  case (Cons e es)
  then show ?case by (cases e) simp_all
qed

lemma composes_trace:
  "composes s s' \<Longrightarrow> trace s' = trace s @ since s s' \<and> list_all composing (since s s')"
  by (simp add: composes_def grows_def)

subsection \<open>RenderToWindow\<close>

text \<open>
  C5. In every \<^verbatim>\<open>RenderToWindow\<close> call, \<^verbatim>\<open>RecreateFrame\<close> is reached only with the
  window drained: the events of the call pass the monitor. The frame is recreated exactly
  when the dimensions of the acquired frame differ from those of the layout, once, and
  then the call begins with \<^verbatim>\<open>GetRenderFrame\<close>, \<^verbatim>\<open>WaitPresent\<close>, \<^verbatim>\<open>Finish\<close>,
  \<^verbatim>\<open>RecreateFrame\<close>, in this order.
\<close>

theorem RenderToWindow_drains_before_recreate:
  fixes W S win layout flipped s
  defines "frame \<equiv> w_GetRenderFrame W (trace s) win"
  defines "resized \<equiv> layout_width layout \<noteq> frame_width frame \<or> layout_height layout \<noteq> frame_height frame"
  shows "drained_before_recreate NotDrained (emitted (RenderToWindow W S win layout flipped) s)
    \<and> recreates (emitted (RenderToWindow W S win layout flipped) s) =
        (if resized then [RecreateFrame win frame (layout_width layout) (layout_height layout)] else [])
    \<and> (resized \<longrightarrow>
         take 4 (emitted (RenderToWindow W S win layout flipped) s) =
           [GetRenderFrame win, WaitPresent win, Finish,
            RecreateFrame win frame (layout_width layout) (layout_height layout)])"
proof -
  define pre where "pre = (if resized
     then [GetRenderFrame win, WaitPresent win, Finish,
           RecreateFrame win frame (layout_width layout) (layout_height layout)]
     else [GetRenderFrame win])"
  define frame' where "frame' = (if resized
     then recreated W (trace s @ [GetRenderFrame win, WaitPresent win, Finish]) frame
            (layout_width layout) (layout_height layout)
     else frame)"
  define s2 where "s2 = s\<lparr>trace := trace s @ pre\<rparr>"
  define s3 where "s3 = DrawScreens W S frame' layout flipped s2"
  have run: "RenderToWindow W S win layout flipped s =
      s3\<lparr>trace := trace s3 @ [Flush (render_ready frame'), Present win frame']\<rparr>"
    by (simp add: RenderToWindow_def Let_def emit_def s3_def s2_def pre_def frame'_def
        frame_def resized_def)
  from composes_trace [OF composes_DrawScreens [of s2 W S frame' layout flipped]]
  have tr: "trace s3 = trace s2 @ since s2 s3" and comp: "list_all composing (since s2 s3)"
    by (simp_all add: s3_def)
  have em: "emitted (RenderToWindow W S win layout flipped) s =
      pre @ since s2 s3 @ [Flush (render_ready frame'), Present win frame']"
    by (simp add: emitted_def run tr s2_def)
  have tail: "drained_before_recreate d (since s2 s3 @ [Flush (render_ready frame'), Present win frame'])" for d
    by (rule drained_composing [OF comp]) simp
  have 1: "drained_before_recreate NotDrained (emitted (RenderToWindow W S win layout flipped) s)"
    using tail by (simp add: em pre_def)
  have 2: "recreates (emitted (RenderToWindow W S win layout flipped) s) =
        (if resized then [RecreateFrame win frame (layout_width layout) (layout_height layout)] else [])"
    by (simp add: em recreates_composing [OF comp] pre_def)
  have 3: "resized \<Longrightarrow> take 4 (emitted (RenderToWindow W S win layout flipped) s) =
         [GetRenderFrame win, WaitPresent win, Finish,
               RecreateFrame win frame (layout_width layout) (layout_height layout)]"
    by (simp add: em pre_def)
  show ?thesis using 1 2 3 by simp
qed

theorem RenderToWindow_drains_before_recreate_witness:
  "layout_width (example_layout\<lparr>layout_width := 1024\<rparr>) \<noteq>
      frame_width (w_GetRenderFrame example_World (trace example_renderer) main_window)
   \<and> recreates (emitted (RenderToWindow example_World example_Settings main_window
         (example_layout\<lparr>layout_width := 1024\<rparr>) False) example_renderer) =
       [RecreateFrame main_window example_frame 1024 480]
   \<and> take 4 (emitted (RenderToWindow example_World example_Settings main_window
         (example_layout\<lparr>layout_width := 1024\<rparr>) False) example_renderer) =
       [GetRenderFrame main_window, WaitPresent main_window, Finish,
        RecreateFrame main_window example_frame 1024 480]
   \<and> drained_before_recreate NotDrained
        (emitted (RenderToWindow example_World example_Settings main_window
           (example_layout\<lparr>layout_width := 1024\<rparr>) False) example_renderer)"
  using RenderToWindow_drains_before_recreate [of example_World example_Settings main_window
      "example_layout\<lparr>layout_width := 1024\<rparr>" False example_renderer]
  by (simp add: example_World_def example_layout_def example_frame_def)

subsection \<open>RenderScreenshot\<close>

lemma staging_size_exact:
  assumes "unat width * unat height * 4 < 2 ^ 32"
  shows "unat (staging_size width height) = unat width * unat height * 4"
proof -
  have "unat width * unat height \<le> unat width * unat height * 4" by simp
  with assms have a: "unat width * unat height < 2 ^ 32" by linarith
  have wh: "unat (width * height) = unat width * unat height"
    using a unat_mult_lem [of width height] by simp
  have "unat (width * height) * unat (4 :: u32) < 2 ^ 32"
    using assms by (simp add: wh)
  then have "unat (width * height * 4) = unat (width * height) * unat (4 :: u32)"
    using unat_mult_lem [of "width * height" "4 :: u32"] by simp
  then have p: "unat (width * height * 4) = unat width * unat height * 4"
    by (simp add: wh)
  have "unat (width * height * 4) < 2 ^ 32"
    using unsigned_less [of "width * height * 4", where 'a = nat] by simp
  then have "unat (width * height * 4) < 2 ^ 64" by simp
  then have "unat (ucast (width * height * 4) :: u64) = unat (width * height * 4)"
    by (simp add: unsigned_ucast_eq take_bit_nat_eq_self)
  then show ?thesis
    by (simp add: staging_size_def p)
qed

lemma RenderScreenshot_success:
  fixes W S s buffer allocation
  defines "layout \<equiv> screenshot_framebuffer_layout s"
  defines "width \<equiv> layout_width layout"
  defines "height \<equiv> layout_height layout"
  defines "bytes \<equiv> staging_size width height"
  defines "frame \<equiv> recreated W (trace s @ [vmaCreateBuffer bytes]) empty_Frame width height"
  defines "s2 \<equiv> s\<lparr>screenshot_requested := False,
                    trace := trace s @ [vmaCreateBuffer bytes,
                                        RecreateFrame main_window empty_Frame width height]\<rparr>"
  defines "closing \<equiv>
     [Record (CmdCopyToBuffer width height (frame_image frame) buffer), Finish,
      CopyToScreenshotBits bytes, vmaDestroyBuffer buffer allocation,
      vmaDestroyImage (frame_image frame) (frame_allocation frame),
      destroyFramebuffer (frame_framebuffer frame),
      destroyImageView (frame_image_view frame),
      screenshot_complete_callback False]"
  assumes req: "screenshot_requested s"
    and ok: "w_vmaCreateBuffer W (trace s) bytes = Some (buffer, allocation)"
  shows "RenderScreenshot W S s =
            Inr ((DrawScreens W S frame layout False s2)
                   \<lparr>trace := trace (DrawScreens W S frame layout False s2) @ closing\<rparr>)
          \<and> emitted_until_end (RenderScreenshot W S) s =
              [vmaCreateBuffer bytes, RecreateFrame main_window empty_Frame width height] @
              emitted (DrawScreens W S frame layout False) s2 @ closing
          \<and> \<not> screenshot_requested (final (RenderScreenshot W S s))"
proof -
  let ?s3 = "DrawScreens W S frame layout False s2"
  have run: "RenderScreenshot W S s = Inr (?s3\<lparr>trace := trace ?s3 @ closing\<rparr>)"
    using req ok
    by (simp add: RenderScreenshot_def Let_def emit_def layout_def width_def height_def
        bytes_def frame_def s2_def closing_def)
  from composes_trace [OF composes_DrawScreens [of s2 W S frame layout False]]
  have tr: "trace ?s3 = trace s2 @ since s2 ?s3" by simp
  have flag: "screenshot_requested ?s3 = screenshot_requested s2"
    using composes_DrawScreens [of s2 W S frame layout False] by (simp add: composes_def)
  have "trace (final (RenderScreenshot W S s)) =
          trace s @ [vmaCreateBuffer bytes, RecreateFrame main_window empty_Frame width height] @
            since s2 ?s3 @ closing"
    using tr by (simp add: run final_def s2_def)
  then have em: "emitted_until_end (RenderScreenshot W S) s =
            [vmaCreateBuffer bytes, RecreateFrame main_window empty_Frame width height] @
            emitted (DrawScreens W S frame layout False) s2 @ closing"
    by (simp add: emitted_until_end_def emitted_def since_def)
  have "\<not> screenshot_requested s2" by (simp add: s2_def)
  with flag have off: "\<not> screenshot_requested (final (RenderScreenshot W S s))"
    by (simp add: final_def run)
  from run em off show ?thesis by blast
qed

lemma RenderScreenshot_failure:
  assumes "screenshot_requested s"
    and "w_vmaCreateBuffer W (trace s)
           (staging_size (layout_width (screenshot_framebuffer_layout s))
              (layout_height (screenshot_framebuffer_layout s))) = None"
  shows "RenderScreenshot W S s =
     Inl (Unreachable,
          s\<lparr>screenshot_requested := False,
            trace := trace s @
              [vmaCreateBuffer (staging_size (layout_width (screenshot_framebuffer_layout s))
                                  (layout_height (screenshot_framebuffer_layout s))),
               Log_Critical ''Failed allocating texture'']\<rparr>)"
  using assms by (simp add: RenderScreenshot_def Let_def emit_def)

text \<open>
  C4, as the code has it. With no request pending, \<^verbatim>\<open>RenderScreenshot\<close> returns the
  renderer as it was. With a request pending it clears the request and asks the allocator
  for a staging buffer whose size is the \<^verbatim>\<open>u32\<close> product \<open>width * height * 4\<close>, which is
  exactly \<open>width * height * 4\<close> bytes whenever that number is below \<open>2^32\<close>. If the
  allocation fails, the failure is logged as critical and the run ends at
  \<^verbatim>\<open>UNREACHABLE()\<close>: nothing is composed and no callback is invoked. If it succeeds, the
  events that follow are, in order: \<^verbatim>\<open>RecreateFrame\<close> of an empty frame at the dimensions
  of the requested layout; the events of \<^verbatim>\<open>DrawScreens\<close> on that frame and layout; the
  recorded copy of the frame's image into the staging buffer; \<^verbatim>\<open>Finish\<close>; the copy of the
  mapped memory to the caller's buffer; the destruction of the staging buffer and of the
  frame's image, framebuffer and view; the completion callback. The renderer returned is
  the one \<^verbatim>\<open>DrawScreens\<close> returns, with these events appended.
\<close>

theorem RenderScreenshot_capture:
  fixes W S s buffer allocation
  defines "layout \<equiv> screenshot_framebuffer_layout s"
  defines "width \<equiv> layout_width layout"
  defines "height \<equiv> layout_height layout"
  defines "bytes \<equiv> staging_size width height"
  defines "frame \<equiv> recreated W (trace s @ [vmaCreateBuffer bytes]) empty_Frame width height"
  defines "s2 \<equiv> s\<lparr>screenshot_requested := False,
                    trace := trace s @ [vmaCreateBuffer bytes,
                                        RecreateFrame main_window empty_Frame width height]\<rparr>"
  defines "closing \<equiv>
     [Record (CmdCopyToBuffer width height (frame_image frame) buffer), Finish,
      CopyToScreenshotBits bytes, vmaDestroyBuffer buffer allocation,
      vmaDestroyImage (frame_image frame) (frame_allocation frame),
      destroyFramebuffer (frame_framebuffer frame),
      destroyImageView (frame_image_view frame),
      screenshot_complete_callback False]"
  shows
    "(\<not> screenshot_requested s \<longrightarrow> RenderScreenshot W S s = Inr s)
     \<and> (screenshot_requested s \<and> w_vmaCreateBuffer W (trace s) bytes = None \<longrightarrow>
          RenderScreenshot W S s =
            Inl (Unreachable,
                 s\<lparr>screenshot_requested := False,
                   trace := trace s @
                     [vmaCreateBuffer bytes, Log_Critical ''Failed allocating texture'']\<rparr>))
     \<and> (screenshot_requested s \<and> w_vmaCreateBuffer W (trace s) bytes = Some (buffer, allocation) \<longrightarrow>
          RenderScreenshot W S s =
            Inr ((DrawScreens W S frame layout False s2)
                   \<lparr>trace := trace (DrawScreens W S frame layout False s2) @ closing\<rparr>)
          \<and> emitted_until_end (RenderScreenshot W S) s =
              [vmaCreateBuffer bytes, RecreateFrame main_window empty_Frame width height] @
              emitted (DrawScreens W S frame layout False) s2 @ closing
          \<and> \<not> screenshot_requested (final (RenderScreenshot W S s))
          \<and> frame_width frame = width \<and> frame_height frame = height)
     \<and> (unat width * unat height * 4 < 2 ^ 32 \<longrightarrow> unat bytes = unat width * unat height * 4)"
proof -
  have idle: "\<not> screenshot_requested s \<Longrightarrow> RenderScreenshot W S s = Inr s"
    by (simp add: RenderScreenshot_def)
  have bytes: "unat width * unat height * 4 < 2 ^ 32 \<Longrightarrow> unat bytes = unat width * unat height * 4"
    unfolding bytes_def by (rule staging_size_exact)
  have dims: "frame_width frame = width \<and> frame_height frame = height"
    by (simp add: frame_def recreated_def split: prod.splits)
  have failure: "screenshot_requested s \<Longrightarrow> w_vmaCreateBuffer W (trace s) bytes = None \<Longrightarrow>
      RenderScreenshot W S s =
            Inl (Unreachable,
                 s\<lparr>screenshot_requested := False,
                   trace := trace s @
                     [vmaCreateBuffer bytes, Log_Critical ''Failed allocating texture'']\<rparr>)"
    unfolding bytes_def width_def height_def layout_def by (rule RenderScreenshot_failure)
  have success: "screenshot_requested s \<Longrightarrow>
      w_vmaCreateBuffer W (trace s) bytes = Some (buffer, allocation) \<Longrightarrow>
      RenderScreenshot W S s =
            Inr ((DrawScreens W S frame layout False s2)
                   \<lparr>trace := trace (DrawScreens W S frame layout False s2) @ closing\<rparr>)
          \<and> emitted_until_end (RenderScreenshot W S) s =
              [vmaCreateBuffer bytes, RecreateFrame main_window empty_Frame width height] @
              emitted (DrawScreens W S frame layout False) s2 @ closing
          \<and> \<not> screenshot_requested (final (RenderScreenshot W S s))"
    unfolding closing_def s2_def frame_def bytes_def width_def height_def layout_def
    by (rule RenderScreenshot_success)
  from idle failure success bytes dims show ?thesis by blast
qed

theorem RenderScreenshot_capture_witness:
  "screenshot_requested (example_renderer\<lparr>screenshot_requested := True\<rparr>)
   \<and> w_vmaCreateBuffer example_World (trace (example_renderer\<lparr>screenshot_requested := True\<rparr>))
        (staging_size 800 480) = Some (6, 7)
   \<and> w_vmaCreateBuffer (example_World\<lparr>w_vmaCreateBuffer := (\<lambda>tr size. None)\<rparr>)
        (trace (example_renderer\<lparr>screenshot_requested := True\<rparr>)) (staging_size 800 480) = None
   \<and> \<not> screenshot_requested example_renderer
   \<and> RenderScreenshot example_World example_Settings example_renderer = Inr example_renderer
   \<and> unat (800 :: u32) * unat (480 :: u32) * 4 < 2 ^ 32
   \<and> unat (staging_size 800 480) = 1536000
   \<and> \<not> screenshot_requested
        (final (RenderScreenshot example_World example_Settings
                  (example_renderer\<lparr>screenshot_requested := True\<rparr>)))
   \<and> isl (RenderScreenshot (example_World\<lparr>w_vmaCreateBuffer := (\<lambda>tr size. None)\<rparr>)
        example_Settings (example_renderer\<lparr>screenshot_requested := True\<rparr>))"
proof -
  let ?s = "example_renderer\<lparr>screenshot_requested := True\<rparr>"
  let ?F = "example_World\<lparr>w_vmaCreateBuffer := (\<lambda>tr size. None)\<rparr>"
  have l: "screenshot_framebuffer_layout ?s = example_layout"
    "screenshot_framebuffer_layout example_renderer = example_layout"
    by (simp_all add: example_renderer_def)
  have d: "layout_width example_layout = 800" "layout_height example_layout = 480"
    by (simp_all add: example_layout_def)
  have h1: "screenshot_requested ?s" by simp
  have h2: "w_vmaCreateBuffer example_World (trace ?s) (staging_size 800 480) = Some (6, 7)"
    by (simp add: example_World_def)
  have h2': "w_vmaCreateBuffer ?F (trace ?s) (staging_size 800 480) = None"
    by simp
  have h3: "\<not> screenshot_requested example_renderer"
    by (simp add: example_renderer_def)
  have h4: "unat (800 :: u32) * unat (480 :: u32) * 4 < 2 ^ 32" by simp
  note a = RenderScreenshot_capture [where s = ?s and W = example_World and S = example_Settings
        and buffer = 6 and allocation = 7, unfolded l d]
  note b = RenderScreenshot_capture [where s = example_renderer and W = example_World
        and S = example_Settings and buffer = 6 and allocation = 7, unfolded l d]
  note c = RenderScreenshot_capture [where s = ?s and W = ?F and S = example_Settings
        and buffer = 6 and allocation = 7, unfolded l d]
  from a h1 h2 have c1: "\<not> screenshot_requested
        (final (RenderScreenshot example_World example_Settings ?s))" by blast
  from b h3 have c2: "RenderScreenshot example_World example_Settings example_renderer =
      Inr example_renderer" by blast
  from a h4 have c3: "unat (staging_size 800 480) = unat (800 :: u32) * unat (480 :: u32) * 4"
    by blast
  then have c3': "unat (staging_size 800 480) = 1536000" by simp
  from c h1 h2' have "RenderScreenshot ?F example_Settings ?s =
      Inl (Unreachable,
           ?s\<lparr>screenshot_requested := False,
              trace := trace ?s @
                [vmaCreateBuffer (staging_size 800 480),
                 Log_Critical ''Failed allocating texture'']\<rparr>)" by blast
  then have c4: "isl (RenderScreenshot ?F example_Settings ?s)" by simp
  show ?thesis using h1 h2 h2' h3 h4 c1 c2 c3' c4 by blast
qed

text \<open>
  C4, as the spec states it, fails in two ways. When the allocation of the staging buffer
  fails, a pending request ends in the fatal path after two events: no frame is composed
  and no callback is invoked. And for a requested layout of 65536 by 16385, the size the
  code asks for is 262144 bytes, not \<open>65536 * 16385 * 4\<close>.
\<close>

theorem RenderScreenshot_not_always_captured:
  "emitted_until_end
      (RenderScreenshot (example_World\<lparr>w_vmaCreateBuffer := (\<lambda>tr size. None)\<rparr>) example_Settings)
      (example_renderer\<lparr>screenshot_requested := True\<rparr>) =
     [vmaCreateBuffer 1536000, Log_Critical ''Failed allocating texture'']
   \<and> hd (emitted_until_end (RenderScreenshot example_World example_Settings)
        (example_renderer
           \<lparr>screenshot_requested := True,
            screenshot_framebuffer_layout :=
              example_layout\<lparr>layout_width := 65536, layout_height := 16385\<rparr>\<rparr>)) =
     vmaCreateBuffer 262144
   \<and> (262144 :: nat) \<noteq> unat (65536 :: u32) * unat (16385 :: u32) * 4"
proof -
  let ?s = "example_renderer\<lparr>screenshot_requested := True\<rparr>"
  let ?F = "example_World\<lparr>w_vmaCreateBuffer := (\<lambda>tr size. None)\<rparr>"
  let ?big = "example_renderer
           \<lparr>screenshot_requested := True,
            screenshot_framebuffer_layout :=
              example_layout\<lparr>layout_width := 65536, layout_height := 16385\<rparr>\<rparr>"
  have small: "staging_size 800 480 = 1536000"
    by (simp add: staging_size_def)
  have big: "staging_size 65536 16385 = 262144"
    by (simp add: staging_size_def)
  have l: "layout_width (screenshot_framebuffer_layout example_renderer) = 800"
    "layout_height (screenshot_framebuffer_layout example_renderer) = 480"
    by (simp_all add: example_renderer_def example_layout_def)
  have "RenderScreenshot ?F example_Settings ?s =
      Inl (Unreachable,
           ?s\<lparr>screenshot_requested := False,
              trace := trace ?s @
                [vmaCreateBuffer (staging_size 800 480),
                 Log_Critical ''Failed allocating texture'']\<rparr>)"
    using RenderScreenshot_failure [of ?s ?F example_Settings] by (simp add: l)
  then have 1: "emitted_until_end (RenderScreenshot ?F example_Settings) ?s =
     [vmaCreateBuffer 1536000, Log_Critical ''Failed allocating texture'']"
    by (simp add: emitted_until_end_def final_def small)
  have "w_vmaCreateBuffer example_World (trace ?big)
          (staging_size (layout_width (screenshot_framebuffer_layout ?big))
             (layout_height (screenshot_framebuffer_layout ?big))) = Some (6, 7)"
    by (simp add: example_World_def)
  from RenderScreenshot_success [of ?big example_World 6 7 example_Settings, OF _ this]
  have 2: "hd (emitted_until_end (RenderScreenshot example_World example_Settings) ?big) =
     vmaCreateBuffer 262144"
    by (simp add: big)
  show ?thesis using 1 2 by simp
qed

end
